theory Spec2Isabelle
  imports Main
begin

section \<open>Strings and numbers of the host language\<close>

text \<open>
  A JavaScript string is modelled as a \<^typ>\<open>string\<close>: each \<^typ>\<open>char\<close> stands for one
  UTF-16 code unit below 256. The template literal \<^verbatim>\<open>`${n}`\<close> of an integer-valued
  number of magnitude below \<open>10^21\<close> is its decimal text (\<open>show_int\<close>).
\<close>

definition digit_char :: "nat \<Rightarrow> char" where
  "digit_char d = ''0123456789'' ! d"

fun show_nat :: "nat \<Rightarrow> string" where
  "show_nat n = (if n < 10 then [digit_char n] else show_nat (n div 10) @ [digit_char (n mod 10)])"

declare show_nat.simps [simp del]

definition show_int :: "int \<Rightarrow> string" where
  "show_int i = (if i < 0 then CHR ''-'' # show_nat (nat (- i)) else show_nat (nat i))"

definition newline :: string where
  "newline = [CHR 0x0A]"

section \<open>types.ts\<close>

datatype InspectorErrorKind =
    SPAWN_FAILED
  | EXECUTION_FAILED
  | PARSE_FAILED
  | TIMEOUT
  | INVALID_RESPONSE
  | CONNECTION_FAILED

text \<open>The kind is a string literal type: inside a template literal it is its own text.\<close>

fun kind_text :: "InspectorErrorKind \<Rightarrow> string" where
  "kind_text SPAWN_FAILED = ''SPAWN_FAILED''"
| "kind_text EXECUTION_FAILED = ''EXECUTION_FAILED''"
| "kind_text PARSE_FAILED = ''PARSE_FAILED''"
| "kind_text TIMEOUT = ''TIMEOUT''"
| "kind_text INVALID_RESPONSE = ''INVALID_RESPONSE''"
| "kind_text CONNECTION_FAILED = ''CONNECTION_FAILED''"

text \<open>\<^verbatim>\<open>details?: string\<close>: \<open>None\<close> is the absent (undefined) field.\<close>

record InspectorError =
  kind :: InspectorErrorKind
  message :: string
  details :: "string option"

datatype TransportType = stdio | sse | http

fun transport_text :: "TransportType \<Rightarrow> string" where
  "transport_text stdio = ''stdio''"
| "transport_text sse = ''sse''"
| "transport_text http = ''http''"

text \<open>
  \<^verbatim>\<open>env?: Record<string, string>\<close> is kept as the list of its entries, in the order
  \<^verbatim>\<open>Object.entries\<close> enumerates them.
\<close>

record TargetServer =
  target :: string
  transport :: "TransportType option"
  env :: "(string \<times> string) list option"

section \<open>utils/result.ts: errors and their rendering\<close>

definition inspectorError :: "InspectorErrorKind \<Rightarrow> string \<Rightarrow> string option \<Rightarrow> InspectorError" where
  "inspectorError k m d = \<lparr>kind = k, message = m, details = d\<rparr>"

text \<open>
  \<^verbatim>\<open>if (error.details)\<close> tests truthiness: an absent field and the empty string are
  both falsy.
\<close>

definition truthy_string :: "string option \<Rightarrow> bool" where
  "truthy_string d = (case d of None \<Rightarrow> False | Some s \<Rightarrow> s \<noteq> [])"

definition formatError :: "InspectorError \<Rightarrow> string" where
  "formatError error =
     (let message0 = ''Error ['' @ kind_text (kind error) @ '']: '' @ message error
      in if truthy_string (details error)
         then message0 @ newline @ ''Details: '' @ the (details error)
         else message0)"

section \<open>utils/result.ts: execCommand\<close>

text \<open>
  The child process is the environment of \<open>execCommand\<close>. What it does is given as the
  sequence of callbacks that the event loop runs after \<^verbatim>\<open>spawn\<close> has returned: data on
  the two output streams, the timer callback, and the \<^verbatim>\<open>error\<close> and \<^verbatim>\<open>close\<close> events of
  the process. A callback that can no longer run (the timer after \<^verbatim>\<open>clearTimeout\<close>) has
  no effect. The promise settles once: a later \<^verbatim>\<open>resolve\<close> or \<^verbatim>\<open>reject\<close> is ignored.
\<close>

datatype proc_event =
    StdoutData string
  | StderrData string
  | TimerFired
  | ErrorEvent string
  | CloseEvent "int option"

text \<open>
  What the promise is rejected with: an \<open>InspectorError\<close> built by a handler, or any other
  value thrown inside the executor (kept as its \<^verbatim>\<open>String(error)\<close>).
\<close>

datatype rejection = RejInspector InspectorError | RejOther string

record exec_state =
  stdout :: string
  stderr :: string
  timedOut :: bool
  timerPending :: bool
  signals :: "string list"
  settled :: "(rejection + string) option"

definition exec_init :: exec_state where
  "exec_init = \<lparr>stdout = [], stderr = [], timedOut = False, timerPending = True,
                 signals = [], settled = None\<rparr>"

definition settle :: "rejection + string \<Rightarrow> exec_state \<Rightarrow> exec_state" where
  "settle r st = (case settled st of None \<Rightarrow> st\<lparr>settled := Some r\<rparr> | Some _ \<Rightarrow> st)"

definition reject :: "InspectorError \<Rightarrow> exec_state \<Rightarrow> exec_state" where
  "reject e st = settle (Inl (RejInspector e)) st"

definition resolve :: "string \<Rightarrow> exec_state \<Rightarrow> exec_state" where
  "resolve out st = settle (Inr out) st"

definition clearTimeout :: "exec_state \<Rightarrow> exec_state" where
  "clearTimeout st = st\<lparr>timerPending := False\<rparr>"

text \<open>\<^verbatim>\<open>`${code}`\<close> for \<^verbatim>\<open>code: number | null\<close>.\<close>

definition show_code :: "int option \<Rightarrow> string" where
  "show_code code = (case code of None \<Rightarrow> ''null'' | Some c \<Rightarrow> show_int c)"

text \<open>\<^verbatim>\<open>stderr || stdout\<close>: the empty string is falsy.\<close>

definition or_else :: "string \<Rightarrow> string \<Rightarrow> string" where
  "or_else a b = (if a \<noteq> [] then a else b)"

fun on_event :: "string \<Rightarrow> int \<Rightarrow> proc_event \<Rightarrow> exec_state \<Rightarrow> exec_state" where
  "on_event command timeout (StdoutData d) st = st\<lparr>stdout := stdout st @ d\<rparr>"
| "on_event command timeout (StderrData d) st = st\<lparr>stderr := stderr st @ d\<rparr>"
| "on_event command timeout TimerFired st =
     (if timerPending st
      then st\<lparr>timedOut := True, timerPending := False, signals := signals st @ [''SIGTERM'']\<rparr>
      else st)"
| "on_event command timeout (ErrorEvent msg) st =
     reject (inspectorError SPAWN_FAILED (''Failed to spawn command: '' @ command) (Some msg))
       (clearTimeout st)"
| "on_event command timeout (CloseEvent code) st =
     (let st' = clearTimeout st in
      if timedOut st'
      then reject (inspectorError TIMEOUT
                     (''Command timed out after '' @ show_int timeout @ ''ms'') (Some (stderr st'))) st'
      else if code \<noteq> Some 0
      then reject (inspectorError EXECUTION_FAILED
                     (''Command exited with code '' @ show_code code)
                     (Some (or_else (stderr st') (stdout st')))) st'
      else resolve (stdout st') st')"

definition run_events :: "string \<Rightarrow> int \<Rightarrow> proc_event list \<Rightarrow> exec_state \<Rightarrow> exec_state" where
  "run_events command timeout evs st = fold (on_event command timeout) evs st"

text \<open>
  The options of \<open>execCommand\<close>; each field may be absent, and so may the whole object.
  The field \<^verbatim>\<open>env\<close> is named \<open>envOverrides\<close> here.
\<close>

record exec_options =
  cwd :: "string option"
  envOverrides :: "(string \<times> string) list option"
  timeoutMs :: "int option"
  shell :: "bool option"

text \<open>
  The call of \<^verbatim>\<open>spawn\<close> as the environment sees it, together with the delay handed to
  \<^verbatim>\<open>setTimeout\<close>; and what the environment answers: the executor throws before any
  callback is installed, or the callbacks run in the given order.
\<close>

record spawn_call =
  sp_command :: string
  sp_args :: "string list"
  sp_cwd :: "string option"
  sp_env :: "(string \<times> string) list option"
  sp_shell :: bool
  sp_timer :: int

datatype spawn_behaviour = ExecutorThrows string | Spawned "proc_event list"

type_synonym world = "spawn_call \<Rightarrow> spawn_behaviour"

definition effective_timeout :: "exec_options option \<Rightarrow> int" where
  "effective_timeout options =
     (case options of None \<Rightarrow> 30000
      | Some opts \<Rightarrow> (case timeoutMs opts of None \<Rightarrow> 30000 | Some t \<Rightarrow> t))"

definition spawn_call_of :: "string \<Rightarrow> string list \<Rightarrow> exec_options option \<Rightarrow> spawn_call" where
  "spawn_call_of command args options =
     \<lparr>sp_command = command, sp_args = args,
      sp_cwd = (case options of None \<Rightarrow> None | Some opts \<Rightarrow> cwd opts),
      sp_env = (case options of None \<Rightarrow> None | Some opts \<Rightarrow> envOverrides opts),
      sp_shell = (case options of None \<Rightarrow> True
                  | Some opts \<Rightarrow> (case shell opts of None \<Rightarrow> True | Some b \<Rightarrow> b)),
      sp_timer = effective_timeout options\<rparr>"

text \<open>The error mapper of \<^verbatim>\<open>ResultAsync.fromPromise\<close>.\<close>

fun map_rejection :: "rejection + string \<Rightarrow> InspectorError + string" where
  "map_rejection (Inl (RejInspector e)) = Inl e"
| "map_rejection (Inl (RejOther s)) =
     Inl (inspectorError SPAWN_FAILED ''Unknown error during command execution'' (Some s))"
| "map_rejection (Inr out) = Inr out"

text \<open>The result is \<open>None\<close> when the promise never settles.\<close>

definition execCommand ::
  "string \<Rightarrow> string list \<Rightarrow> exec_options option \<Rightarrow> world \<Rightarrow> (InspectorError + string) option" where
  "execCommand command args options w =
     (let timeout = effective_timeout options in
      map_option map_rejection
        (case w (spawn_call_of command args options) of
           ExecutorThrows s \<Rightarrow> Some (Inl (RejOther s))
         | Spawned evs \<Rightarrow> settled (run_events command timeout evs exec_init)))"

text \<open>The text a list of callbacks adds to each stream.\<close>

fun stdout_text :: "proc_event list \<Rightarrow> string" where
  "stdout_text [] = []"
| "stdout_text (StdoutData d # evs) = d @ stdout_text evs"
| "stdout_text (_ # evs) = stdout_text evs"

fun stderr_text :: "proc_event list \<Rightarrow> string" where
  "stderr_text [] = []"
| "stderr_text (StderrData d # evs) = d @ stderr_text evs"
| "stderr_text (_ # evs) = stderr_text evs"

fun is_data :: "proc_event \<Rightarrow> bool" where
  "is_data (StdoutData _) = True"
| "is_data (StderrData _) = True"
| "is_data _ = False"


fun is_settling :: "proc_event \<Rightarrow> bool" where
  "is_settling (ErrorEvent _) = True"
| "is_settling (CloseEvent _) = True"
| "is_settling _ = False"



text \<open>
  Whatever callbacks have run, a settled promise of \<open>execCommand\<close> holds the standard
  output or an \<open>InspectorError\<close> built by the \<^verbatim>\<open>error\<close> or the \<^verbatim>\<open>close\<close> handler.
\<close>

definition exec_kinds_inv :: "exec_state \<Rightarrow> bool" where
  "exec_kinds_inv st =
     (case settled st of
        Some (Inl (RejInspector e)) \<Rightarrow>
          kind e = SPAWN_FAILED \<or> kind e = EXECUTION_FAILED \<or> kind e = TIMEOUT
      | Some (Inl (RejOther s)) \<Rightarrow> False
      | _ \<Rightarrow> True)"

section \<open>JSON values and \<^verbatim>\<open>JSON.stringify\<close>\<close>

text \<open>
  A value that came out of \<^verbatim>\<open>JSON.parse\<close>. \<open>JNum n\<close> is an integer-valued number that
  JavaScript prints in plain decimal notation (magnitude below \<open>10^21\<close>); \<open>JNumOther t\<close>
  is any other number, kept as the text \<^verbatim>\<open>JSON.stringify\<close> prints for it (that of
  \<^verbatim>\<open>Number.prototype.toString\<close> for a finite number, \<open>null\<close> for one that is not finite).
  An object is the list of its entries in the order \<^verbatim>\<open>Object.entries\<close> enumerates them.
\<close>

datatype json =
    JNull
  | JBool bool
  | JNum int
  | JNumOther string
  | JStr string
  | JArr "json list"
  | JObj "(string \<times> json) list"

definition hex_digit :: "nat \<Rightarrow> char" where
  "hex_digit d = ''0123456789abcdef'' ! d"

text \<open>
  \<open>QuoteJSONString\<close> of ECMAScript: the seven short escapes, \<^verbatim>\<open>\u00xx\<close> for the other
  control characters, every other code unit as it is.
\<close>

definition json_escape_char :: "char \<Rightarrow> string" where
  "json_escape_char c =
     (if c = CHR 0x08 then [CHR 0x5C, CHR ''b'']
      else if c = CHR 0x09 then [CHR 0x5C, CHR ''t'']
      else if c = CHR 0x0A then [CHR 0x5C, CHR ''n'']
      else if c = CHR 0x0C then [CHR 0x5C, CHR ''f'']
      else if c = CHR 0x0D then [CHR 0x5C, CHR ''r'']
      else if c = CHR 0x22 then [CHR 0x5C, CHR 0x22]
      else if c = CHR 0x5C then [CHR 0x5C, CHR 0x5C]
      else if (of_char c :: nat) < 32
      then [CHR 0x5C, CHR ''u'', CHR ''0'', CHR ''0'',
            hex_digit (of_char c div 16), hex_digit (of_char c mod 16)]
      else [c])"

definition QuoteJSONString :: "string \<Rightarrow> string" where
  "QuoteJSONString s = [CHR 0x22] @ concat (map json_escape_char s) @ [CHR 0x22]"

fun join :: "string \<Rightarrow> string list \<Rightarrow> string" where
  "join sep [] = []"
| "join sep [x] = x"
| "join sep (x # y # ys) = x @ sep @ join sep (y # ys)"

text \<open>
  \<open>SerializeJSONProperty\<close> with its \<open>gap\<close> and current \<open>indent\<close>: an empty gap gives the
  compact text, a non-empty one puts every member on a line of its own.
\<close>

fun JSON_serialize :: "string \<Rightarrow> string \<Rightarrow> json \<Rightarrow> string"
  and JSON_serialize_elements :: "string \<Rightarrow> string \<Rightarrow> json list \<Rightarrow> string list"
  and JSON_serialize_members :: "string \<Rightarrow> string \<Rightarrow> (string \<times> json) list \<Rightarrow> string list"
where
  "JSON_serialize gap indent JNull = ''null''"
| "JSON_serialize gap indent (JBool b) = (if b then ''true'' else ''false'')"
| "JSON_serialize gap indent (JNum n) = show_int n"
| "JSON_serialize gap indent (JNumOther t) = t"
| "JSON_serialize gap indent (JStr s) = QuoteJSONString s"
| "JSON_serialize gap indent (JArr xs) =
     (let stepback = indent; indent' = indent @ gap;
          partial = JSON_serialize_elements gap indent' xs
      in if partial = [] then ''[]''
         else if gap = [] then ''['' @ join '','' partial @ '']''
         else ''['' @ newline @ indent' @ join ('','' @ newline @ indent') partial
              @ newline @ stepback @ '']'')"
| "JSON_serialize gap indent (JObj kvs) =
     (let stepback = indent; indent' = indent @ gap;
          partial = JSON_serialize_members gap indent' kvs
      in if partial = [] then ''{}''
         else if gap = [] then ''{'' @ join '','' partial @ ''}''
         else ''{'' @ newline @ indent' @ join ('','' @ newline @ indent') partial
              @ newline @ stepback @ ''}'')"
| "JSON_serialize_elements gap indent [] = []"
| "JSON_serialize_elements gap indent (x # xs) =
     JSON_serialize gap indent x # JSON_serialize_elements gap indent xs"
| "JSON_serialize_members gap indent [] = []"
| "JSON_serialize_members gap indent ((k, v) # kvs) =
     (QuoteJSONString k @ '':'' @ (if gap = [] then [] else '' '') @ JSON_serialize gap indent v)
       # JSON_serialize_members gap indent kvs"

text \<open>\<^verbatim>\<open>JSON.stringify(value)\<close> and \<^verbatim>\<open>JSON.stringify(value, null, 2)\<close>.\<close>

definition JSON_stringify :: "json \<Rightarrow> string" where
  "JSON_stringify v = JSON_serialize [] [] v"

definition JSON_stringify_2 :: "json \<Rightarrow> string" where
  "JSON_stringify_2 v = JSON_serialize ''  '' [] v"

section \<open>services/inspector-cli.ts: the argument builder\<close>

datatype InspectorMethod =
    tools_list | tools_call | resources_list | resources_read | prompts_list | prompts_get

fun method_text :: "InspectorMethod \<Rightarrow> string" where
  "method_text tools_list = ''tools/list''"
| "method_text tools_call = ''tools/call''"
| "method_text resources_list = ''resources/list''"
| "method_text resources_read = ''resources/read''"
| "method_text prompts_list = ''prompts/list''"
| "method_text prompts_get = ''prompts/get''"

text \<open>
  \<open>runInspectorCli\<close> and \<open>buildCliArgs\<close> are private to their module. They are called with
  six combinations of \<open>method\<close> and \<open>methodArgs\<close>, one by each exported function, and the
  casts inside \<open>buildCliArgs\<close> rely on that. A \<open>request\<close> is one of these combinations:
  \<^item> \<open>ToolsList\<close>, \<open>ResourcesList\<close>, \<open>PromptsList\<close>: the method with \<open>methodArgs\<close> undefined;
  \<^item> \<open>ToolsCall name toolArgs\<close>: \<^verbatim>\<open>"tools/call"\<close> with \<^verbatim>\<open>{ name, arguments: toolArgs }\<close>;
  \<^item> \<open>ResourcesRead uri\<close>: \<^verbatim>\<open>"resources/read"\<close> with \<^verbatim>\<open>{ uri }\<close>;
  \<^item> \<open>PromptsGet name promptArgs\<close>: \<^verbatim>\<open>"prompts/get"\<close> with \<^verbatim>\<open>{ name, arguments: promptArgs }\<close>.
\<close>

datatype request =
    ToolsList
  | ToolsCall string "(string \<times> json) list"
  | ResourcesList
  | ResourcesRead string
  | PromptsList
  | PromptsGet string "(string \<times> string) list"

fun method_of :: "request \<Rightarrow> InspectorMethod" where
  "method_of ToolsList = tools_list"
| "method_of (ToolsCall _ _) = tools_call"
| "method_of ResourcesList = resources_list"
| "method_of (ResourcesRead _) = resources_read"
| "method_of PromptsList = prompts_list"
| "method_of (PromptsGet _ _) = prompts_get"

text \<open>The object passed as \<open>methodArgs\<close>, if any, as a list of entries.\<close>

fun methodArgs_of :: "request \<Rightarrow> (string \<times> json) list option" where
  "methodArgs_of ToolsList = None"
| "methodArgs_of (ToolsCall name toolArgs) =
     Some [(''name'', JStr name), (''arguments'', JObj toolArgs)]"
| "methodArgs_of ResourcesList = None"
| "methodArgs_of (ResourcesRead uri) = Some [(''uri'', JStr uri)]"
| "methodArgs_of PromptsList = None"
| "methodArgs_of (PromptsGet name promptArgs) =
     Some [(''name'', JStr name), (''arguments'', JObj (map (\<lambda>(k, v). (k, JStr v)) promptArgs))]"

definition transport_flags :: "TargetServer \<Rightarrow> string list" where
  "transport_flags tgt =
     (case transport tgt of None \<Rightarrow> [] | Some t \<Rightarrow> [''--transport'', transport_text t])"

definition env_flags :: "TargetServer \<Rightarrow> string list" where
  "env_flags tgt =
     (case env tgt of None \<Rightarrow> []
      | Some entries \<Rightarrow> concat (map (\<lambda>(key, value). [''-e'', key @ ''='' @ value]) entries))"

text \<open>\<^verbatim>\<open>typeof value === 'string' ? value : JSON.stringify(value)\<close>\<close>

fun tool_arg_text :: "json \<Rightarrow> string" where
  "tool_arg_text (JStr s) = s"
| "tool_arg_text v = JSON_stringify v"

text \<open>The method specific arguments of the flag-per-argument builder.\<close>

fun method_flags :: "request \<Rightarrow> string list" where
  "method_flags (ToolsCall name toolArgs) =
     [''--tool-name'', name]
     @ concat (map (\<lambda>(key, value). [''--tool-arg'', key @ ''='' @ tool_arg_text value]) toolArgs)"
| "method_flags (ResourcesRead uri) = [''--uri'', uri]"
| "method_flags (PromptsGet name promptArgs) =
     [''--prompt-name'', name]
     @ concat (map (\<lambda>(key, value). [''--prompt-args'', key @ ''='' @ value]) promptArgs)"
| "method_flags _ = []"

text \<open>
  \<open>buildCliArgs\<close> of \<^verbatim>\<open>src/services/inspector-cli.ts\<close> (run with \<^verbatim>\<open>node\<close>). The path of the
  inspector's script is resolved when the module is loaded; here it is a parameter.
\<close>

definition buildCliArgs :: "string \<Rightarrow> request \<Rightarrow> TargetServer \<Rightarrow> string list" where
  "buildCliArgs inspectorPath req tgt =
     [inspectorPath, ''--cli'']
     @ [target tgt]
     @ [''--method'', method_text (method_of req)]
     @ transport_flags tgt
     @ env_flags tgt
     @ method_flags req"

text \<open>\<open>buildCliArgs\<close> of the variant that runs the inspector through \<^verbatim>\<open>npx\<close>.\<close>

definition buildCliArgs_npx :: "request \<Rightarrow> TargetServer \<Rightarrow> string list" where
  "buildCliArgs_npx req tgt =
     [''@modelcontextprotocol/inspector'', ''--cli'']
     @ [''--method'', method_text (method_of req)]
     @ transport_flags tgt
     @ env_flags tgt
     @ (case methodArgs_of req of
          None \<Rightarrow> []
        | Some methodArgs \<Rightarrow>
            if length methodArgs > 0 then [''--json'', JSON_stringify (JObj methodArgs)] else [])
     @ [target tgt]"

section \<open>services/inspector-cli.ts: running the inspector and decoding its output\<close>

text \<open>
  \<^verbatim>\<open>String.prototype.trim\<close> removes the white space and line terminator code units at both
  ends; below 256 these are tab, line feed, vertical tab, form feed, carriage return,
  space and no-break space.
\<close>

definition is_js_whitespace :: "char \<Rightarrow> bool" where
  "is_js_whitespace c = (of_char c \<in> {9, 10, 11, 12, 13, 32, 160 :: nat})"

definition js_trim :: "string \<Rightarrow> string" where
  "js_trim s = rev (dropWhile is_js_whitespace (rev (dropWhile is_js_whitespace s)))"

text \<open>
  What the program runs on: the resolved path of the inspector's script, the built-in
  \<^verbatim>\<open>JSON.parse\<close> (\<open>Inl\<close> carries the message of the \<^verbatim>\<open>SyntaxError\<close> it throws), and the
  behaviour of the processes it spawns.
\<close>

record host =
  inspectorPath :: string
  JSON_parse :: "string \<Rightarrow> string + json"
  spawn :: world

definition parseJson :: "(string \<Rightarrow> string + json) \<Rightarrow> string \<Rightarrow> InspectorError + json" where
  "parseJson parse jsonString =
     (case parse jsonString of
        Inr parsed \<Rightarrow> Inr parsed
      | Inl msg \<Rightarrow> Inl (inspectorError PARSE_FAILED ''Failed to parse JSON response'' (Some msg)))"

text \<open>The callback that \<open>runInspectorCli\<close> chains after \<open>execCommand\<close>.\<close>

definition decodeOutput :: "(string \<Rightarrow> string + json) \<Rightarrow> string \<Rightarrow> InspectorError + json" where
  "decodeOutput parse output =
     (let trimmedOutput = js_trim output;
          jsonStr = or_else trimmedOutput ''{}''
      in parseJson parse jsonStr)"

text \<open>\<^verbatim>\<open>ResultAsync.andThen\<close>; \<open>None\<close> is a promise that never settles.\<close>

definition andThen :: "('e + 'a) option \<Rightarrow> ('a \<Rightarrow> 'e + 'b) \<Rightarrow> ('e + 'b) option" where
  "andThen r f =
     (case r of None \<Rightarrow> None | Some (Inl e) \<Rightarrow> Some (Inl e) | Some (Inr x) \<Rightarrow> Some (f x))"

definition runInspectorCli ::
  "host \<Rightarrow> request \<Rightarrow> TargetServer \<Rightarrow> int option \<Rightarrow> (InspectorError + json) option" where
  "runInspectorCli h req tgt timeout =
     (let args = buildCliArgs (inspectorPath h) req tgt in
      andThen
        (execCommand ''node'' args
           (Some \<lparr>cwd = None, envOverrides = None,
                  timeoutMs = Some (case timeout of None \<Rightarrow> 60000 | Some t \<Rightarrow> t),
                  shell = Some False\<rparr>)
           (spawn h))
        (decodeOutput (JSON_parse h)))"

definition runInspectorCli_npx ::
  "host \<Rightarrow> request \<Rightarrow> TargetServer \<Rightarrow> int option \<Rightarrow> (InspectorError + json) option" where
  "runInspectorCli_npx h req tgt timeout =
     (let args = buildCliArgs_npx req tgt in
      andThen
        (execCommand ''npx'' args
           (Some \<lparr>cwd = None, envOverrides = None,
                  timeoutMs = Some (case timeout of None \<Rightarrow> 60000 | Some t \<Rightarrow> t),
                  shell = None\<rparr>)
           (spawn h))
        (decodeOutput (JSON_parse h)))"

text \<open>The six exported functions; \<^verbatim>\<open>toolArgs ?? {}\<close> is the empty list of entries.\<close>

definition listTools :: "host \<Rightarrow> TargetServer \<Rightarrow> int option \<Rightarrow> (InspectorError + json) option" where
  "listTools h tgt timeout = runInspectorCli h ToolsList tgt timeout"

definition callTool ::
  "host \<Rightarrow> TargetServer \<Rightarrow> string \<Rightarrow> (string \<times> json) list option \<Rightarrow> int option
     \<Rightarrow> (InspectorError + json) option" where
  "callTool h tgt toolName toolArgs timeout =
     runInspectorCli h
       (ToolsCall toolName (case toolArgs of None \<Rightarrow> [] | Some a \<Rightarrow> a)) tgt timeout"

definition listResources :: "host \<Rightarrow> TargetServer \<Rightarrow> int option \<Rightarrow> (InspectorError + json) option" where
  "listResources h tgt timeout = runInspectorCli h ResourcesList tgt timeout"

definition readResource ::
  "host \<Rightarrow> TargetServer \<Rightarrow> string \<Rightarrow> int option \<Rightarrow> (InspectorError + json) option" where
  "readResource h tgt uri timeout = runInspectorCli h (ResourcesRead uri) tgt timeout"

definition listPrompts :: "host \<Rightarrow> TargetServer \<Rightarrow> int option \<Rightarrow> (InspectorError + json) option" where
  "listPrompts h tgt timeout = runInspectorCli h PromptsList tgt timeout"

definition getPrompt ::
  "host \<Rightarrow> TargetServer \<Rightarrow> string \<Rightarrow> (string \<times> string) list option \<Rightarrow> int option
     \<Rightarrow> (InspectorError + json) option" where
  "getPrompt h tgt promptName promptArgs timeout =
     runInspectorCli h
       (PromptsGet promptName (case promptArgs of None \<Rightarrow> [] | Some a \<Rightarrow> a)) tgt timeout"

section \<open>tools/inspector.ts: the six tools\<close>

datatype content_item = TextContent string

record CallToolResult =
  content :: "content_item list"
  isError :: "bool option"

text \<open>The parameters of a tool after validation against its input schema.\<close>

record target_params =
  p_target :: string
  p_transport :: "TransportType option"
  timeout_ms :: int

datatype tool_params =
    ListToolsParams target_params
  | CallToolParams target_params string "(string \<times> json) list"
  | ListResourcesParams target_params
  | ReadResourceParams target_params string
  | ListPromptsParams target_params
  | GetPromptParams target_params string "(string \<times> string) list"

definition target_server :: "target_params \<Rightarrow> TargetServer" where
  "target_server params = \<lparr>target = p_target params, transport = p_transport params, env = None\<rparr>"

text \<open>The handlers; the result is \<open>None\<close> when the awaited promise never settles.\<close>

fun handler :: "host \<Rightarrow> tool_params \<Rightarrow> CallToolResult option" where
  "handler h (ListToolsParams params) =
     (case listTools h (target_server params) (Some (timeout_ms params)) of
        None \<Rightarrow> None
      | Some (Inl error) \<Rightarrow>
          Some \<lparr>content = [TextContent (formatError error)], isError = Some True\<rparr>
      | Some (Inr v) \<Rightarrow> Some \<lparr>content = [TextContent (JSON_stringify_2 v)], isError = None\<rparr>)"
| "handler h (CallToolParams params tool_name tool_args) =
     (case callTool h (target_server params) tool_name (Some tool_args) (Some (timeout_ms params)) of
        None \<Rightarrow> None
      | Some (Inl error) \<Rightarrow>
          Some \<lparr>content = [TextContent (formatError error)], isError = Some True\<rparr>
      | Some (Inr v) \<Rightarrow> Some \<lparr>content = [TextContent (JSON_stringify_2 v)], isError = None\<rparr>)"
| "handler h (ListResourcesParams params) =
     (case listResources h (target_server params) (Some (timeout_ms params)) of
        None \<Rightarrow> None
      | Some (Inl error) \<Rightarrow>
          Some \<lparr>content = [TextContent (formatError error)], isError = Some True\<rparr>
      | Some (Inr v) \<Rightarrow> Some \<lparr>content = [TextContent (JSON_stringify_2 v)], isError = None\<rparr>)"
| "handler h (ReadResourceParams params uri) =
     (case readResource h (target_server params) uri (Some (timeout_ms params)) of
        None \<Rightarrow> None
      | Some (Inl error) \<Rightarrow>
          Some \<lparr>content = [TextContent (formatError error)], isError = Some True\<rparr>
      | Some (Inr v) \<Rightarrow> Some \<lparr>content = [TextContent (JSON_stringify_2 v)], isError = None\<rparr>)"
| "handler h (ListPromptsParams params) =
     (case listPrompts h (target_server params) (Some (timeout_ms params)) of
        None \<Rightarrow> None
      | Some (Inl error) \<Rightarrow>
          Some \<lparr>content = [TextContent (formatError error)], isError = Some True\<rparr>
      | Some (Inr v) \<Rightarrow> Some \<lparr>content = [TextContent (JSON_stringify_2 v)], isError = None\<rparr>)"
| "handler h (GetPromptParams params prompt_name prompt_args) =
     (case getPrompt h (target_server params) prompt_name (Some prompt_args)
             (Some (timeout_ms params)) of
        None \<Rightarrow> None
      | Some (Inl error) \<Rightarrow>
          Some \<lparr>content = [TextContent (formatError error)], isError = Some True\<rparr>
      | Some (Inr v) \<Rightarrow> Some \<lparr>content = [TextContent (JSON_stringify_2 v)], isError = None\<rparr>)"

text \<open>The request a handler passes down, and the common parameters of a tool call.\<close>

fun request_of :: "tool_params \<Rightarrow> request" where
  "request_of (ListToolsParams params) = ToolsList"
| "request_of (CallToolParams params tool_name tool_args) = ToolsCall tool_name tool_args"
| "request_of (ListResourcesParams params) = ResourcesList"
| "request_of (ReadResourceParams params uri) = ResourcesRead uri"
| "request_of (ListPromptsParams params) = PromptsList"
| "request_of (GetPromptParams params prompt_name prompt_args) = PromptsGet prompt_name prompt_args"

fun common_params :: "tool_params \<Rightarrow> target_params" where
  "common_params (ListToolsParams params) = params"
| "common_params (CallToolParams params tool_name tool_args) = params"
| "common_params (ListResourcesParams params) = params"
| "common_params (ReadResourceParams params uri) = params"
| "common_params (ListPromptsParams params) = params"
| "common_params (GetPromptParams params prompt_name prompt_args) = params"

section \<open>tools/inspector.ts: the input schemas\<close>

text \<open>
  The arguments of a tool call arrive as a JSON object, here the list of its entries. Each
  schema is read as the validation library applies it: a field is looked up, an absent
  field is \<^verbatim>\<open>undefined\<close>, and a field that fails its check adds its name to the issues.
  The result of a field is \<open>None\<close> when the check fails.
\<close>

text \<open>\<^verbatim>\<open>z.string().min(1)\<close>\<close>

fun z_string_min1 :: "json option \<Rightarrow> string option" where
  "z_string_min1 (Some (JStr s)) = (if length s \<ge> 1 then Some s else None)"
| "z_string_min1 _ = None"

text \<open>\<^verbatim>\<open>z.enum(["stdio", "sse", "http"]).optional()\<close>\<close>

fun TransportSchema :: "json option \<Rightarrow> TransportType option option" where
  "TransportSchema None = Some None"
| "TransportSchema (Some (JStr s)) =
     (if s = ''stdio'' then Some (Some stdio)
      else if s = ''sse'' then Some (Some sse)
      else if s = ''http'' then Some (Some http)
      else None)"
| "TransportSchema _ = None"

text \<open>\<^verbatim>\<open>z.number().int().min(1000).max(300000).default(60000)\<close>\<close>

fun timeout_ms_schema :: "json option \<Rightarrow> int option" where
  "timeout_ms_schema None = Some 60000"
| "timeout_ms_schema (Some (JNum n)) = (if 1000 \<le> n \<and> n \<le> 300000 then Some n else None)"
| "timeout_ms_schema _ = None"

text \<open>
  A record schema checks every entry of the object and builds its result from the
  entries it has checked, leaving out an entry whose key is \<open>__proto__\<close>.
\<close>

definition record_result :: "(string \<times> 'a) list \<Rightarrow> (string \<times> 'a) list" where
  "record_result entries = filter (\<lambda>(key, value). key \<noteq> ''__proto__'') entries"

text \<open>\<^verbatim>\<open>z.record(z.unknown()).default({})\<close>\<close>

fun tool_args_schema :: "json option \<Rightarrow> (string \<times> json) list option" where
  "tool_args_schema None = Some []"
| "tool_args_schema (Some (JObj entries)) = Some (record_result entries)"
| "tool_args_schema _ = None"

text \<open>\<^verbatim>\<open>z.record(z.string()).default({})\<close>\<close>

fun string_entries :: "(string \<times> json) list \<Rightarrow> (string \<times> string) list option" where
  "string_entries [] = Some []"
| "string_entries ((k, JStr s) # entries) =
     (case string_entries entries of None \<Rightarrow> None | Some rest \<Rightarrow> Some ((k, s) # rest))"
| "string_entries _ = None"

fun prompt_args_schema :: "json option \<Rightarrow> (string \<times> string) list option" where
  "prompt_args_schema None = Some []"
| "prompt_args_schema (Some (JObj entries)) = map_option record_result (string_entries entries)"
| "prompt_args_schema _ = None"

definition issue :: "string \<Rightarrow> 'a option \<Rightarrow> string list" where
  "issue field r = (case r of None \<Rightarrow> [field] | Some _ \<Rightarrow> [])"

text \<open>\<open>TargetServerSchema\<close>: the issues of its three fields, and the parsed fields.\<close>

definition TargetServerSchema_issues :: "(string \<times> json) list \<Rightarrow> string list" where
  "TargetServerSchema_issues input =
     issue ''target'' (z_string_min1 (map_of input ''target''))
     @ issue ''transport'' (TransportSchema (map_of input ''transport''))
     @ issue ''timeout_ms'' (timeout_ms_schema (map_of input ''timeout_ms''))"

definition TargetServerSchema :: "(string \<times> json) list \<Rightarrow> target_params option" where
  "TargetServerSchema input =
     (case (z_string_min1 (map_of input ''target''),
            TransportSchema (map_of input ''transport''),
            timeout_ms_schema (map_of input ''timeout_ms'')) of
        (Some tg, Some tr, Some ms) \<Rightarrow> Some \<lparr>p_target = tg, p_transport = tr, timeout_ms = ms\<rparr>
      | _ \<Rightarrow> None)"

text \<open>
  The input schema registered with each tool: \<open>TargetServerSchema\<close>, extended for three of
  the tools. \<open>Inl\<close> carries the names of the fields that failed.
\<close>

definition list_tools_schema :: "(string \<times> json) list \<Rightarrow> string list + tool_params" where
  "list_tools_schema input =
     (case TargetServerSchema input of
        Some params \<Rightarrow> Inr (ListToolsParams params)
      | None \<Rightarrow> Inl (TargetServerSchema_issues input))"

definition call_tool_schema :: "(string \<times> json) list \<Rightarrow> string list + tool_params" where
  "call_tool_schema input =
     (case (TargetServerSchema input,
            z_string_min1 (map_of input ''tool_name''),
            tool_args_schema (map_of input ''tool_args'')) of
        (Some params, Some tool_name, Some tool_args) \<Rightarrow>
          Inr (CallToolParams params tool_name tool_args)
      | _ \<Rightarrow> Inl (TargetServerSchema_issues input
                  @ issue ''tool_name'' (z_string_min1 (map_of input ''tool_name''))
                  @ issue ''tool_args'' (tool_args_schema (map_of input ''tool_args''))))"

definition list_resources_schema :: "(string \<times> json) list \<Rightarrow> string list + tool_params" where
  "list_resources_schema input =
     (case TargetServerSchema input of
        Some params \<Rightarrow> Inr (ListResourcesParams params)
      | None \<Rightarrow> Inl (TargetServerSchema_issues input))"

definition read_resource_schema :: "(string \<times> json) list \<Rightarrow> string list + tool_params" where
  "read_resource_schema input =
     (case (TargetServerSchema input, z_string_min1 (map_of input ''uri'')) of
        (Some params, Some uri) \<Rightarrow> Inr (ReadResourceParams params uri)
      | _ \<Rightarrow> Inl (TargetServerSchema_issues input
                  @ issue ''uri'' (z_string_min1 (map_of input ''uri''))))"

definition list_prompts_schema :: "(string \<times> json) list \<Rightarrow> string list + tool_params" where
  "list_prompts_schema input =
     (case TargetServerSchema input of
        Some params \<Rightarrow> Inr (ListPromptsParams params)
      | None \<Rightarrow> Inl (TargetServerSchema_issues input))"

definition get_prompt_schema :: "(string \<times> json) list \<Rightarrow> string list + tool_params" where
  "get_prompt_schema input =
     (case (TargetServerSchema input,
            z_string_min1 (map_of input ''prompt_name''),
            prompt_args_schema (map_of input ''prompt_args'')) of
        (Some params, Some prompt_name, Some prompt_args) \<Rightarrow>
          Inr (GetPromptParams params prompt_name prompt_args)
      | _ \<Rightarrow> Inl (TargetServerSchema_issues input
                  @ issue ''prompt_name'' (z_string_min1 (map_of input ''prompt_name''))
                  @ issue ''prompt_args'' (prompt_args_schema (map_of input ''prompt_args''))))"

text \<open>\<open>registerInspectorTools\<close>: the six names and, for each, its input schema.\<close>

definition registered_tools :: "(string \<times> ((string \<times> json) list \<Rightarrow> string list + tool_params)) list" where
  "registered_tools =
     [(''mcpdev_inspector_list_tools'', list_tools_schema),
      (''mcpdev_inspector_call_tool'', call_tool_schema),
      (''mcpdev_inspector_list_resources'', list_resources_schema),
      (''mcpdev_inspector_read_resource'', read_resource_schema),
      (''mcpdev_inspector_list_prompts'', list_prompts_schema),
      (''mcpdev_inspector_get_prompt'', get_prompt_schema)]"

text \<open>
  Modelled from the spec: the dispatch of a tool call, done by the server class of the
  protocol library, which is not among the sources. Each operation validates its input
  against the declared shape and fails fast with a schema-validation error, a condition
  distinct from a typed failure; only a valid input reaches the handler.
\<close>

datatype tool_call_outcome =
    UnknownTool
  | InvalidParams "string list"
  | Handled "CallToolResult option"

definition call_registered_tool :: "host \<Rightarrow> string \<Rightarrow> (string \<times> json) list \<Rightarrow> tool_call_outcome" where
  "call_registered_tool h name input =
     (case map_of registered_tools name of
        None \<Rightarrow> UnknownTool
      | Some inputSchema \<Rightarrow>
          (case inputSchema input of
             Inl issues \<Rightarrow> InvalidParams issues
           | Inr params \<Rightarrow> Handled (handler h params)))"

chapter \<open>Properties\<close>

section \<open>The error formatter\<close>

lemma formatError_prefix:
  "take 7 (formatError e) = ''Error [''"
  by (simp add: formatError_def Let_def)

text \<open>
  Claim C8, as the code has it: \<open>formatError\<close> renders a failure as
  \<open>Error [<kind>]: <message>\<close>, and appends a newline and \<open>Details: <details>\<close> exactly
  when the details field is present and is not the empty string; a failure whose details
  is absent or empty is rendered as the first line alone.
\<close>

theorem formatError_shape:
  "formatError \<lparr>kind = k, message = m, details = None\<rparr>
     = ''Error ['' @ kind_text k @ '']: '' @ m
   \<and> formatError \<lparr>kind = k, message = m, details = Some []\<rparr>
     = ''Error ['' @ kind_text k @ '']: '' @ m
   \<and> formatError \<lparr>kind = k, message = m, details = Some (c # cs)\<rparr>
     = ''Error ['' @ kind_text k @ '']: '' @ m @ [CHR 0x0A] @ ''Details: '' @ (c # cs)"
  by (simp add: formatError_def truthy_string_def newline_def)

text \<open>
  Claim C8 as the specification words it (the line is appended if and only if the details
  field is present) fails for a failure whose details field is present and empty, such as
  a timeout of a process that wrote nothing to its standard error: no line is appended.
\<close>

theorem formatError_empty_details_counterexample:
  "details \<lparr>kind = TIMEOUT, message = ''m'', details = Some []\<rparr> \<noteq> None
   \<and> formatError \<lparr>kind = TIMEOUT, message = ''m'', details = Some []\<rparr> = ''Error [TIMEOUT]: m''
   \<and> formatError \<lparr>kind = TIMEOUT, message = ''m'', details = Some []\<rparr>
       \<noteq> ''Error [TIMEOUT]: m'' @ [CHR 0x0A] @ ''Details: ''"
  by (simp add: formatError_def truthy_string_def)

section \<open>The process invoker\<close>

lemma settled_settle_Some [simp]:
  "settled st = Some r \<Longrightarrow> settle r' st = st"
  by (simp add: settle_def)

lemma settled_settle_None [simp]:
  "settled st = None \<Longrightarrow> settle r' st = st\<lparr>settled := Some r'\<rparr>"
  by (simp add: settle_def)

lemma exec_init_simps [simp]:
  "stdout exec_init = []" "stderr exec_init = []" "timedOut exec_init = False"
  "timerPending exec_init = True" "signals exec_init = []" "settled exec_init = None"
  by (simp_all add: exec_init_def)

lemma run_events_Nil [simp]: "run_events c t [] st = st"
  by (simp add: run_events_def)

lemma run_events_Cons:
  "run_events c t (ev # evs) st = run_events c t evs (on_event c t ev st)"
  by (simp add: run_events_def)

lemma run_events_append:
  "run_events c t (xs @ ys) st = run_events c t ys (run_events c t xs st)"
  by (simp add: run_events_def)

text \<open>The promise settles once.\<close>

lemma on_event_settled_sticky:
  "settled st = Some r \<Longrightarrow> settled (on_event c t ev st) = Some r"
  by (cases ev) (simp_all add: reject_def resolve_def clearTimeout_def Let_def)

lemma run_events_settled_sticky:
  "settled st = Some r \<Longrightarrow> settled (run_events c t evs st) = Some r"
  unfolding run_events_def
  by (induction evs arbitrary: st) (simp_all add: on_event_settled_sticky)



text \<open>Data callbacks only append to the two buffers.\<close>

lemma run_events_data:
  "list_all is_data evs \<Longrightarrow>
   run_events c t evs st
     = st\<lparr>stdout := stdout st @ stdout_text evs, stderr := stderr st @ stderr_text evs\<rparr>"
proof (induction evs arbitrary: st)
  case Nil
  then show ?case by simp
next
  case (Cons ev evs)
  then show ?case by (cases ev) (simp_all add: run_events_Cons)
qed

lemma run_events_no_settling:
  "list_all (\<lambda>ev. \<not> is_settling ev) evs \<Longrightarrow> settled st = None \<Longrightarrow>
   settled (run_events c t evs st) = None
   \<and> stderr (run_events c t evs st) = stderr st @ stderr_text evs
   \<and> stdout (run_events c t evs st) = stdout st @ stdout_text evs
   \<and> (timedOut st \<longrightarrow> timedOut (run_events c t evs st))"
proof (induction evs arbitrary: st)
  case Nil
  then show ?case by simp
next
  case (Cons ev evs)
  then show ?case by (cases ev) (simp_all add: run_events_Cons)
qed

lemma execCommand_Spawned:
  "execCommand command args options (\<lambda>_. Spawned evs)
     = map_option map_rejection
         (settled (run_events command (effective_timeout options) evs exec_init))"
  by (simp add: execCommand_def)

text \<open>
  Claim C4: a process that writes to its streams and then closes before the timer has
  fired gives, for exit code 0, the accumulated standard output as it was written (the
  chunks concatenated, nothing trimmed); for any other code, an \<open>EXECUTION_FAILED\<close> failure
  whose details is the accumulated standard error if that is not empty and the accumulated
  standard output otherwise. A process that could not be started (an \<^verbatim>\<open>error\<close> event, or
  \<^verbatim>\<open>spawn\<close> throwing) gives a \<open>SPAWN_FAILED\<close> failure whose details is the text of the
  underlying error.
\<close>

theorem execCommand_exit_outcomes:
  "list_all is_data pre \<Longrightarrow>
   execCommand command args options (\<lambda>_. Spawned (pre @ CloseEvent (Some 0) # post))
     = Some (Inr (stdout_text pre))
   \<and> (code \<noteq> Some 0 \<longrightarrow>
      execCommand command args options (\<lambda>_. Spawned (pre @ CloseEvent code # post))
        = Some (Inl \<lparr>kind = EXECUTION_FAILED,
                      message = ''Command exited with code '' @ show_code code,
                      details = Some (if stderr_text pre \<noteq> [] then stderr_text pre
                                      else stdout_text pre)\<rparr>))
   \<and> execCommand command args options (\<lambda>_. Spawned (pre @ ErrorEvent msg # post))
     = Some (Inl \<lparr>kind = SPAWN_FAILED,
                   message = ''Failed to spawn command: '' @ command,
                   details = Some msg\<rparr>)
   \<and> execCommand command args options (\<lambda>_. ExecutorThrows msg)
     = Some (Inl \<lparr>kind = SPAWN_FAILED,
                   message = ''Unknown error during command execution'',
                   details = Some msg\<rparr>)"
  by (simp add: execCommand_Spawned run_events_append run_events_Cons run_events_data
      run_events_settled_sticky reject_def resolve_def clearTimeout_def inspectorError_def
      or_else_def Let_def)
     (simp add: execCommand_def inspectorError_def)

theorem execCommand_exit_outcomes_witness:
  "list_all is_data [StdoutData '' {}'', StderrData ''warn'', StdoutData [CHR 0x0A]]
   \<and> execCommand ''node'' [''cli.js''] None
        (\<lambda>_. Spawned ([StdoutData '' {}'', StderrData ''warn'', StdoutData [CHR 0x0A]]
                        @ CloseEvent (Some 0) # []))
       = Some (Inr ('' {}'' @ [CHR 0x0A]))
   \<and> Some (2::int) \<noteq> Some 0
   \<and> execCommand ''node'' [''cli.js''] None
        (\<lambda>_. Spawned ([StdoutData '' {}'', StderrData ''warn'', StdoutData [CHR 0x0A]]
                        @ CloseEvent (Some 2) # []))
       = Some (Inl \<lparr>kind = EXECUTION_FAILED, message = ''Command exited with code 2'',
                     details = Some ''warn''\<rparr>)"
  using execCommand_exit_outcomes [of "[StdoutData '' {}'', StderrData ''warn'', StdoutData [CHR 0x0A]]"
      "''node''" "[''cli.js'']" None "[]" "Some 2" "''x''"]
  by (simp add: show_code_def show_int_def show_nat.simps digit_char_def)

subsection \<open>The timer\<close>



lemma timer_pending_or_fired:
  "list_all (\<lambda>ev. \<not> is_settling ev) pre \<Longrightarrow> timerPending st \<or> timedOut st
   \<Longrightarrow> timerPending (run_events c t pre st) \<or> timedOut (run_events c t pre st)"
proof (induction pre arbitrary: st)
  case Nil
  then show ?case by simp
next
  case (Cons ev evs)
  then show ?case by (cases ev) (auto simp: run_events_Cons)
qed

lemma timer_fires_unsettled:
  assumes "list_all (\<lambda>ev. \<not> is_settling ev) pre"
  shows "timedOut (run_events c t (pre @ [TimerFired]) exec_init)"
    and "settled (run_events c t (pre @ [TimerFired]) exec_init) = None"
    and "stderr (run_events c t (pre @ [TimerFired]) exec_init) = stderr_text pre"
proof -
  have pre: "settled (run_events c t pre exec_init) = None"
    "stderr (run_events c t pre exec_init) = stderr_text pre"
    using run_events_no_settling [OF assms, of exec_init c t] by simp_all
  have "timerPending (run_events c t pre exec_init) \<or> timedOut (run_events c t pre exec_init)"
    using timer_pending_or_fired [OF assms, of exec_init] by simp
  then show "timedOut (run_events c t (pre @ [TimerFired]) exec_init)"
    by (auto simp: run_events_append run_events_Cons)
  show "settled (run_events c t (pre @ [TimerFired]) exec_init) = None"
    using pre by (simp add: run_events_append run_events_Cons)
  show "stderr (run_events c t (pre @ [TimerFired]) exec_init) = stderr_text pre"
    using pre by (simp add: run_events_append run_events_Cons)
qed

text \<open>
  The \<^verbatim>\<open>close\<close> handler after the timer: when no \<^verbatim>\<open>error\<close> event and no earlier
  \<^verbatim>\<open>close\<close> came in between, the promise is rejected there with \<open>TIMEOUT\<close> and the
  standard error accumulated up to that moment.
\<close>

lemma close_after_timer:
  assumes pre: "list_all (\<lambda>ev. \<not> is_settling ev) pre"
    and mid: "list_all (\<lambda>ev. \<not> is_settling ev) mid"
  shows "execCommand command args options
           (\<lambda>_. Spawned (pre @ TimerFired # mid @ CloseEvent code # post))
         = Some (Inl \<lparr>kind = TIMEOUT,
                       message = ''Command timed out after ''
                                 @ show_int (effective_timeout options) @ ''ms'',
                       details = Some (stderr_text pre @ stderr_text mid)\<rparr>)"
proof -
  let ?t = "effective_timeout options"
  let ?s1 = "run_events command ?t (pre @ [TimerFired]) exec_init"
  have s1: "timedOut ?s1" "settled ?s1 = None" "stderr ?s1 = stderr_text pre"
    using timer_fires_unsettled [OF pre] by simp_all
  let ?s2 = "run_events command ?t mid ?s1"
  have s2: "settled ?s2 = None" "stderr ?s2 = stderr_text pre @ stderr_text mid" "timedOut ?s2"
    using run_events_no_settling [OF mid s1(2), of command ?t] s1 by simp_all
  have "settled (on_event command ?t (CloseEvent code) ?s2)
      = Some (Inl (RejInspector \<lparr>kind = TIMEOUT,
                      message = ''Command timed out after '' @ show_int ?t @ ''ms'',
                      details = Some (stderr_text pre @ stderr_text mid)\<rparr>))"
    using s2 by (simp add: reject_def clearTimeout_def inspectorError_def Let_def)
  then have "settled (run_events command ?t (pre @ TimerFired # mid @ CloseEvent code # post) exec_init)
      = Some (Inl (RejInspector \<lparr>kind = TIMEOUT,
                      message = ''Command timed out after '' @ show_int ?t @ ''ms'',
                      details = Some (stderr_text pre @ stderr_text mid)\<rparr>))"
    by (simp add: run_events_append run_events_Cons run_events_settled_sticky)
  then show ?thesis
    by (simp add: execCommand_Spawned)
qed









text \<open>
  Claim C3, as the code has it: when the timer callback runs while the process is still
  running, it sets the flag and sends \<open>SIGTERM\<close>, and the call stays pending. The
  \<open>TIMEOUT\<close> failure is reported by the \<^verbatim>\<open>close\<close> handler, when the process has ended and
  its streams are closed, and its details is the standard error accumulated up to that
  \<^verbatim>\<open>close\<close> event.
\<close>

theorem timeout_reported_at_close:
  "list_all is_data pre \<Longrightarrow> list_all is_data mid \<Longrightarrow>
   signals (run_events command (effective_timeout options) (pre @ [TimerFired]) exec_init)
     = [''SIGTERM'']
   \<and> timedOut (run_events command (effective_timeout options) (pre @ [TimerFired]) exec_init)
   \<and> execCommand command args options (\<lambda>_. Spawned (pre @ TimerFired # mid)) = None
   \<and> execCommand command args options
        (\<lambda>_. Spawned (pre @ TimerFired # mid @ CloseEvent code # post))
     = Some (Inl \<lparr>kind = TIMEOUT,
                   message = ''Command timed out after ''
                             @ show_int (effective_timeout options) @ ''ms'',
                   details = Some (stderr_text pre @ stderr_text mid)\<rparr>)"
proof -
  assume pre: "list_all is_data pre" and mid: "list_all is_data mid"
  have ns: "list_all (\<lambda>ev. \<not> is_settling ev) xs" if "list_all is_data xs" for xs
    using that
  proof (induction xs)
    case Nil
    then show ?case by simp
  next
    case (Cons ev evs)
    then show ?case by (cases ev) simp_all
  qed
  let ?t = "effective_timeout options"
  have "signals (run_events command ?t (pre @ [TimerFired]) exec_init) = [''SIGTERM'']"
    and "timedOut (run_events command ?t (pre @ [TimerFired]) exec_init)"
    by (simp_all add: run_events_append run_events_Cons run_events_data [OF pre])
  moreover have "execCommand command args options (\<lambda>_. Spawned (pre @ TimerFired # mid)) = None"
    by (simp add: execCommand_Spawned run_events_append run_events_Cons
        run_events_data [OF pre] run_events_data [OF mid])
  ultimately show ?thesis
    using close_after_timer [OF ns [OF pre] ns [OF mid], of command args options code post]
    by simp
qed

theorem timeout_reported_at_close_witness:
  "list_all is_data [StderrData ''a''] \<and> list_all is_data [StderrData ''b'']
   \<and> signals (run_events ''node'' 30000 ([StderrData ''a''] @ [TimerFired]) exec_init)
       = [''SIGTERM'']
   \<and> execCommand ''node'' [] None (\<lambda>_. Spawned ([StderrData ''a''] @ TimerFired # [StderrData ''b'']))
       = None
   \<and> execCommand ''node'' [] None
        (\<lambda>_. Spawned ([StderrData ''a''] @ TimerFired # [StderrData ''b''] @ CloseEvent None # []))
       = Some (Inl \<lparr>kind = TIMEOUT, message = ''Command timed out after 30000ms'',
                     details = Some ''ab''\<rparr>)"
  using timeout_reported_at_close [of "[StderrData ''a'']" "[StderrData ''b'']" "''node''" None
      "[]" None "[]"]
  by (simp add: effective_timeout_def show_int_def show_nat.simps digit_char_def)

text \<open>
  Claim C3 as the specification words it fails on both counts. On the run below the
  process writes \<open>a\<close> to its standard error, the timer fires and \<open>SIGTERM\<close> is sent, the
  process writes \<open>b\<close> and then closes. At the moment the signal is issued no outcome has
  been reported, and a call whose process never closes reports none at all; the failure
  reported at the \<^verbatim>\<open>close\<close> event carries \<open>ab\<close>, not the \<open>a\<close> accumulated at the time of
  the kill.
\<close>

theorem timeout_reported_at_kill_counterexample:
  "signals (run_events ''node'' 30000 [StderrData ''a'', TimerFired] exec_init) = [''SIGTERM'']
   \<and> stderr (run_events ''node'' 30000 [StderrData ''a'', TimerFired] exec_init) = ''a''
   \<and> settled (run_events ''node'' 30000 [StderrData ''a'', TimerFired] exec_init) = None
   \<and> execCommand ''node'' [] None (\<lambda>_. Spawned [StderrData ''a'', TimerFired]) = None
   \<and> execCommand ''node'' [] None
        (\<lambda>_. Spawned [StderrData ''a'', TimerFired, StderrData ''b'', CloseEvent None])
       = Some (Inl \<lparr>kind = TIMEOUT, message = ''Command timed out after 30000ms'',
                     details = Some ''ab''\<rparr>)"
  by (simp add: execCommand_Spawned run_events_Cons reject_def clearTimeout_def
      inspectorError_def effective_timeout_def show_int_def show_nat.simps digit_char_def)

section \<open>The argument builder\<close>

lemma length_tool_arg_flags:
  "length (concat (map (\<lambda>(key, value). [f, g key value]) entries)) = 2 * length entries"
  by (induction entries) auto

lemma tool_arg_text_case:
  "tool_arg_text value = (case value of JStr s \<Rightarrow> s | _ \<Rightarrow> JSON_stringify value)"
  by (cases "value") simp_all

text \<open>
  Claim C5: for a \<^verbatim>\<open>tools/call\<close> request the builder of the flag-per-argument variant
  puts the target directly after the script path and \<open>--cli\<close>, as the first positional
  argument of the inspector, before every flag; after the method, transport and
  environment flags it emits \<open>--tool-name\<close> and the name, and then, for each entry of the
  arguments in their order, \<open>--tool-arg\<close> and \<open>key=value\<close>, where a string value is taken as
  it is and any other value as its \<^verbatim>\<open>JSON.stringify\<close> text. For the tool \<open>get_weather\<close>
  with arguments \<open>{city: "Tokyo"}\<close> the vector ends with \<open>--tool-name get_weather\<close>
  \<open>--tool-arg city=Tokyo\<close>.
\<close>

theorem buildCliArgs_tools_call:
  "buildCliArgs path (ToolsCall name toolArgs) tgt
     = [path, ''--cli'', target tgt, ''--method'', ''tools/call'']
       @ transport_flags tgt @ env_flags tgt
       @ [''--tool-name'', name]
       @ concat (map (\<lambda>(key, value).
                        [''--tool-arg'',
                         key @ ''='' @ (case value of JStr s \<Rightarrow> s | _ \<Rightarrow> JSON_stringify value)])
                   toolArgs)
   \<and> take 3 (buildCliArgs path (ToolsCall name toolArgs) tgt) = [path, ''--cli'', target tgt]
   \<and> length (buildCliArgs path (ToolsCall name toolArgs) tgt)
       = 7 + length (transport_flags tgt) + length (env_flags tgt) + 2 * length toolArgs
   \<and> buildCliArgs ''cli.js'' (ToolsCall ''get_weather'' [(''city'', JStr ''Tokyo'')])
        \<lparr>target = ''node server.js'', transport = None, env = None\<rparr>
       = [''cli.js'', ''--cli'', ''node server.js'', ''--method'', ''tools/call'',
          ''--tool-name'', ''get_weather'', ''--tool-arg'', ''city=Tokyo'']"
  by (simp add: buildCliArgs_def tool_arg_text_case length_tool_arg_flags
      transport_flags_def env_flags_def)

text \<open>
  Claim C6: the builder of the generic JSON variant emits the package name, \<open>--cli\<close>, the
  method, the transport flag and the \<open>-e KEY=VALUE\<close> pairs if any, then the object of
  method arguments, if the request has one, as one \<open>--json\<close> pair holding its
  \<^verbatim>\<open>JSON.stringify\<close> text, and the target as the last element.
\<close>

theorem buildCliArgs_npx_shape:
  "buildCliArgs_npx req tgt
     = [''@modelcontextprotocol/inspector'', ''--cli'', ''--method'', method_text (method_of req)]
       @ transport_flags tgt @ env_flags tgt
       @ (case methodArgs_of req of
            None \<Rightarrow> []
          | Some methodArgs \<Rightarrow> [''--json'', JSON_stringify (JObj methodArgs)])
       @ [target tgt]
   \<and> last (buildCliArgs_npx req tgt) = target tgt
   \<and> buildCliArgs_npx (ToolsCall name toolArgs) tgt
     = [''@modelcontextprotocol/inspector'', ''--cli'', ''--method'', ''tools/call'']
       @ transport_flags tgt @ env_flags tgt
       @ [''--json'', JSON_stringify (JObj [(''name'', JStr name), (''arguments'', JObj toolArgs)]),
          target tgt]"
  by (cases req) (simp_all add: buildCliArgs_npx_def)

section \<open>The result decoder\<close>

lemma js_trim_empty_iff:
  "js_trim s = [] \<longleftrightarrow> list_all is_js_whitespace s"
proof
  assume "js_trim s = []"
  then have a: "\<forall>c \<in> set (dropWhile is_js_whitespace s). is_js_whitespace c"
    by (simp add: js_trim_def)
  show "list_all is_js_whitespace s"
  proof (rule ccontr)
    assume "\<not> list_all is_js_whitespace s"
    then have ne: "dropWhile is_js_whitespace s \<noteq> []"
      by (simp add: list_all_iff)
    then have "\<not> is_js_whitespace (hd (dropWhile is_js_whitespace s))"
      by (rule hd_dropWhile)
    moreover have "hd (dropWhile is_js_whitespace s) \<in> set (dropWhile is_js_whitespace s)"
      using ne by simp
    ultimately show False
      using a by blast
  qed
next
  assume "list_all is_js_whitespace s"
  then have e: "dropWhile is_js_whitespace s = []"
    by (simp add: list_all_iff)
  show "js_trim s = []"
    by (simp only: js_trim_def e rev.simps dropWhile.simps)
qed

text \<open>
  Claim C2: the decoder trims the captured standard output and hands the trimmed text, or
  the two characters \<open>{}\<close> when nothing is left, to \<^verbatim>\<open>JSON.parse\<close>. What the parser
  returns is the result, unchecked; when the parser throws, the result is a
  \<open>PARSE_FAILED\<close> failure whose details is the parser's message. So an output of white
  space only decodes to the empty object, given that \<^verbatim>\<open>JSON.parse\<close> reads \<open>{}\<close> as the
  empty object, and the output \<open>not-json\<close>, which the parser rejects, gives
  \<open>PARSE_FAILED\<close> with the parser's message.
\<close>

theorem decodeOutput_contract:
  "decodeOutput parse raw
     = (case parse (if list_all is_js_whitespace raw then ''{}'' else js_trim raw) of
          Inr parsed \<Rightarrow> Inr parsed
        | Inl msg \<Rightarrow> Inl \<lparr>kind = PARSE_FAILED, message = ''Failed to parse JSON response'',
                          details = Some msg\<rparr>)
   \<and> (parse ''{}'' = Inr (JObj []) \<longrightarrow> list_all is_js_whitespace raw \<longrightarrow>
        decodeOutput parse raw = Inr (JObj []))
   \<and> (parse ''not-json'' = Inl msg \<longrightarrow>
        decodeOutput parse ''not-json''
          = Inl \<lparr>kind = PARSE_FAILED, message = ''Failed to parse JSON response'',
                  details = Some msg\<rparr>)"
proof -
  have 1: "decodeOutput parse out
     = (case parse (if list_all is_js_whitespace out then ''{}'' else js_trim out) of
          Inr parsed \<Rightarrow> Inr parsed
        | Inl msg \<Rightarrow> Inl \<lparr>kind = PARSE_FAILED, message = ''Failed to parse JSON response'',
                          details = Some msg\<rparr>)" for out
    using js_trim_empty_iff [of out]
    by (auto simp: decodeOutput_def parseJson_def or_else_def inspectorError_def Let_def
        split: sum.splits)
  have nj: "js_trim ''not-json'' = ''not-json''"
    by (simp add: js_trim_def is_js_whitespace_def)
  have nw: "\<not> list_all is_js_whitespace ''not-json''"
    by (simp add: is_js_whitespace_def)
  show ?thesis
    using 1 [of raw] 1 [of "''not-json''"] nj nw by (auto split: sum.splits)
qed

theorem decodeOutput_contract_witness:
  "(\<lambda>s. if s = ''{}'' then Inr (JObj []) else Inl ''Unexpected token o in JSON at position 1'')
     ''{}'' = Inr (JObj [])
   \<and> list_all is_js_whitespace [CHR '' '', CHR 0x0A]
   \<and> decodeOutput
        (\<lambda>s. if s = ''{}'' then Inr (JObj []) else Inl ''Unexpected token o in JSON at position 1'')
        [CHR '' '', CHR 0x0A] = Inr (JObj [])
   \<and> (\<lambda>s. if s = ''{}'' then Inr (JObj []) else Inl ''Unexpected token o in JSON at position 1'')
       ''not-json'' = Inl ''Unexpected token o in JSON at position 1''
   \<and> decodeOutput
        (\<lambda>s. if s = ''{}'' then Inr (JObj []) else Inl ''Unexpected token o in JSON at position 1'')
        ''not-json''
       = Inl \<lparr>kind = PARSE_FAILED, message = ''Failed to parse JSON response'',
               details = Some ''Unexpected token o in JSON at position 1''\<rparr>"
  using decodeOutput_contract
    [of "\<lambda>s. if s = ''{}'' then Inr (JObj []) else Inl ''Unexpected token o in JSON at position 1''"
        "[CHR '' '', CHR 0x0A]" "''Unexpected token o in JSON at position 1''"]
  by (simp add: is_js_whitespace_def)

section \<open>The pipeline and the six tools\<close>

lemma exec_kinds_inv_on_event:
  "exec_kinds_inv st \<Longrightarrow> exec_kinds_inv (on_event c t ev st)"
  by (cases ev)
     (auto simp: exec_kinds_inv_def reject_def resolve_def clearTimeout_def settle_def
        inspectorError_def Let_def split: option.splits sum.splits rejection.splits)

lemma exec_kinds_inv_run_events:
  "exec_kinds_inv st \<Longrightarrow> exec_kinds_inv (run_events c t evs st)"
  unfolding run_events_def
  by (induction evs arbitrary: st) (simp_all add: exec_kinds_inv_on_event)

lemma execCommand_kinds:
  assumes "execCommand command args options w = Some (Inl e)"
  shows "kind e = SPAWN_FAILED \<or> kind e = EXECUTION_FAILED \<or> kind e = TIMEOUT"
proof (cases "w (spawn_call_of command args options)")
  case (ExecutorThrows s)
  with assms show ?thesis
    by (auto simp: execCommand_def inspectorError_def)
next
  case (Spawned evs)
  have "exec_kinds_inv (run_events command (effective_timeout options) evs exec_init)"
    by (rule exec_kinds_inv_run_events) (simp add: exec_kinds_inv_def)
  with assms Spawned show ?thesis
    by (auto simp: execCommand_def exec_kinds_inv_def Let_def
        split: option.splits sum.splits rejection.splits)
qed

lemma parseJson_kind:
  "parseJson parse s = Inl e \<Longrightarrow> kind e = PARSE_FAILED"
  by (auto simp: parseJson_def inspectorError_def split: sum.splits)

lemma andThen_decode_kinds:
  assumes "andThen (execCommand command args options w) (decodeOutput parse) = Some (Inl e)"
  shows "kind e = SPAWN_FAILED \<or> kind e = EXECUTION_FAILED \<or> kind e = TIMEOUT
         \<or> kind e = PARSE_FAILED"
  using assms execCommand_kinds [of command args options w] parseJson_kind [of parse]
  by (auto simp: andThen_def decodeOutput_def Let_def split: option.splits sum.splits)

text \<open>
  Claim C9: a failure that comes out of the pipeline of either variant, for any request
  (so for each of the six exported operations), any target, any timeout and any behaviour
  of the spawned process and of the parser, has kind \<open>SPAWN_FAILED\<close>, \<open>EXECUTION_FAILED\<close>,
  \<open>TIMEOUT\<close> or \<open>PARSE_FAILED\<close>; \<open>INVALID_RESPONSE\<close> and \<open>CONNECTION_FAILED\<close> are never
  produced.
\<close>

theorem pipeline_failure_kinds:
  "runInspectorCli h req tgt timeout = Some (Inl e)
     \<or> runInspectorCli_npx h req tgt timeout = Some (Inl e) \<Longrightarrow>
   (kind e = SPAWN_FAILED \<or> kind e = EXECUTION_FAILED \<or> kind e = TIMEOUT
      \<or> kind e = PARSE_FAILED)
   \<and> kind e \<noteq> INVALID_RESPONSE \<and> kind e \<noteq> CONNECTION_FAILED"
  using andThen_decode_kinds
  by (fastforce simp: runInspectorCli_def runInspectorCli_npx_def Let_def)

theorem pipeline_failure_kinds_witness:
  "runInspectorCli
     \<lparr>inspectorPath = ''cli.js'', JSON_parse = (\<lambda>s. Inl ''Unexpected token''),
      spawn = (\<lambda>_. Spawned [StderrData ''boom'', CloseEvent (Some 1)])\<rparr>
     ToolsList \<lparr>target = ''node server.js'', transport = None, env = None\<rparr> None
     = Some (Inl \<lparr>kind = EXECUTION_FAILED, message = ''Command exited with code 1'',
                   details = Some ''boom''\<rparr>)
   \<and> kind \<lparr>kind = EXECUTION_FAILED, message = ''Command exited with code 1'',
             details = Some ''boom''\<rparr> \<noteq> INVALID_RESPONSE
   \<and> kind \<lparr>kind = EXECUTION_FAILED, message = ''Command exited with code 1'',
             details = Some ''boom''\<rparr> \<noteq> CONNECTION_FAILED"
proof -
  let ?h = "\<lparr>inspectorPath = ''cli.js'',
             JSON_parse = (\<lambda>s :: string. Inl ''Unexpected token'' :: string + json),
             spawn = (\<lambda>_. Spawned [StderrData ''boom'', CloseEvent (Some 1)])\<rparr>"
  let ?tgt = "\<lparr>target = ''node server.js'', transport = None, env = None\<rparr>"
  let ?e = "\<lparr>kind = EXECUTION_FAILED, message = ''Command exited with code 1'',
             details = Some ''boom''\<rparr>"
  have run: "runInspectorCli ?h ToolsList ?tgt None = Some (Inl ?e)"
    by (simp add: runInspectorCli_def execCommand_def andThen_def Let_def run_events_def
        reject_def clearTimeout_def settle_def exec_init_def inspectorError_def or_else_def
        show_code_def show_int_def show_nat.simps digit_char_def)
  then have "runInspectorCli ?h ToolsList ?tgt None = Some (Inl ?e)
      \<or> runInspectorCli_npx ?h ToolsList ?tgt None = Some (Inl ?e)"
    by (rule disjI1)
  from pipeline_failure_kinds [OF this] run show ?thesis
    by blast
qed

lemma handler_eq:
  "handler h p
     = (case runInspectorCli h (request_of p) (target_server (common_params p))
               (Some (timeout_ms (common_params p))) of
          None \<Rightarrow> None
        | Some (Inl error) \<Rightarrow>
            Some \<lparr>content = [TextContent (formatError error)], isError = Some True\<rparr>
        | Some (Inr v) \<Rightarrow>
            Some \<lparr>content = [TextContent (JSON_stringify_2 v)], isError = None\<rparr>)"
  by (cases p)
     (simp_all add: listTools_def callTool_def listResources_def readResource_def
        listPrompts_def getPrompt_def)

lemma runInspectorCli_throws:
  "(\<forall>call. spawn h call = ExecutorThrows s) \<Longrightarrow>
   runInspectorCli h req tgt timeout
     = Some (Inl \<lparr>kind = SPAWN_FAILED, message = ''Unknown error during command execution'',
                   details = Some s\<rparr>)"
  by (simp add: runInspectorCli_def execCommand_def andThen_def inspectorError_def Let_def)

lemma runInspectorCli_exit0:
  "(\<forall>call. spawn h call = Spawned [StdoutData out, CloseEvent (Some 0)]) \<Longrightarrow>
   runInspectorCli h req tgt timeout = Some (decodeOutput (JSON_parse h) out)"
  by (simp add: runInspectorCli_def execCommand_def andThen_def Let_def run_events_def
      resolve_def clearTimeout_def settle_def exec_init_def)

text \<open>
  Claim C1: each of the six handlers awaits the pipeline for its request and answers with
  one text item. When the pipeline fails, the text is the formatted failure, which starts
  with \<open>Error [\<close>, and \<open>isError\<close> is true; when it succeeds, the text is the decoded value
  printed by \<^verbatim>\<open>JSON.stringify\<close> with an indentation of two spaces, and \<open>isError\<close> is not
  set. What is thrown on the way, by \<^verbatim>\<open>spawn\<close> or by \<^verbatim>\<open>JSON.parse\<close>, comes back as such an
  error response and not as an exception of the handler.
\<close>

theorem handler_response:
  "handler h p
     = (case runInspectorCli h (request_of p) (target_server (common_params p))
               (Some (timeout_ms (common_params p))) of
          None \<Rightarrow> None
        | Some (Inl error) \<Rightarrow>
            Some \<lparr>content = [TextContent (formatError error)], isError = Some True\<rparr>
        | Some (Inr v) \<Rightarrow>
            Some \<lparr>content = [TextContent (JSON_serialize ''  '' [] v)], isError = None\<rparr>)
   \<and> take 7 (formatError error) = ''Error [''
   \<and> ((\<forall>call. spawn h call = ExecutorThrows s) \<longrightarrow>
        handler h p
          = Some \<lparr>content = [TextContent (formatError
                     \<lparr>kind = SPAWN_FAILED, message = ''Unknown error during command execution'',
                      details = Some s\<rparr>)],
                  isError = Some True\<rparr>)
   \<and> ((\<forall>call. spawn h call = Spawned [StdoutData out, CloseEvent (Some 0)])
        \<and> JSON_parse h (or_else (js_trim out) ''{}'') = Inl msg \<longrightarrow>
        handler h p
          = Some \<lparr>content = [TextContent (formatError
                     \<lparr>kind = PARSE_FAILED, message = ''Failed to parse JSON response'',
                      details = Some msg\<rparr>)],
                  isError = Some True\<rparr>)"
proof (intro conjI impI)
  show "handler h p
     = (case runInspectorCli h (request_of p) (target_server (common_params p))
               (Some (timeout_ms (common_params p))) of
          None \<Rightarrow> None
        | Some (Inl error) \<Rightarrow>
            Some \<lparr>content = [TextContent (formatError error)], isError = Some True\<rparr>
        | Some (Inr v) \<Rightarrow>
            Some \<lparr>content = [TextContent (JSON_serialize ''  '' [] v)], isError = None\<rparr>)"
    by (simp add: handler_eq JSON_stringify_2_def split: option.splits sum.splits)
  show "take 7 (formatError error) = ''Error [''"
    by (rule formatError_prefix)
next
  assume "\<forall>call. spawn h call = ExecutorThrows s"
  then show "handler h p
          = Some \<lparr>content = [TextContent (formatError
                     \<lparr>kind = SPAWN_FAILED, message = ''Unknown error during command execution'',
                      details = Some s\<rparr>)],
                  isError = Some True\<rparr>"
    by (simp add: handler_eq runInspectorCli_throws)
next
  assume "(\<forall>call. spawn h call = Spawned [StdoutData out, CloseEvent (Some 0)])
        \<and> JSON_parse h (or_else (js_trim out) ''{}'') = Inl msg"
  then show "handler h p
          = Some \<lparr>content = [TextContent (formatError
                     \<lparr>kind = PARSE_FAILED, message = ''Failed to parse JSON response'',
                      details = Some msg\<rparr>)],
                  isError = Some True\<rparr>"
    by (simp add: handler_eq runInspectorCli_exit0 decodeOutput_def parseJson_def
        inspectorError_def Let_def)
qed


theorem handler_response_witness:
  "(\<forall>call. spawn \<lparr>inspectorPath = ''cli.js'', JSON_parse = (\<lambda>s. Inl ''Unexpected token''),
                      spawn = (\<lambda>_. ExecutorThrows ''boom'')\<rparr> call = ExecutorThrows ''boom'')
   \<and> handler \<lparr>inspectorPath = ''cli.js'', JSON_parse = (\<lambda>s. Inl ''Unexpected token''),
               spawn = (\<lambda>_. ExecutorThrows ''boom'')\<rparr>
        (CallToolParams \<lparr>p_target = ''node server.js'', p_transport = None, timeout_ms = 60000\<rparr>
           ''ping'' [])
       = Some \<lparr>content = [TextContent (''Error [SPAWN_FAILED]: Unknown error during command execution''
                                        @ [CHR 0x0A] @ ''Details: boom'')],
               isError = Some True\<rparr>
   \<and> (\<forall>call. spawn \<lparr>inspectorPath = ''cli.js'', JSON_parse = (\<lambda>s. Inl ''Unexpected token''),
                        spawn = (\<lambda>_. Spawned [StdoutData ''not-json'', CloseEvent (Some 0)])\<rparr> call
                = Spawned [StdoutData ''not-json'', CloseEvent (Some 0)])
   \<and> JSON_parse \<lparr>inspectorPath = ''cli.js'', JSON_parse = (\<lambda>s. Inl ''Unexpected token''),
                  spawn = (\<lambda>_. Spawned [StdoutData ''not-json'', CloseEvent (Some 0)])\<rparr>
        (or_else (js_trim ''not-json'') ''{}'') = Inl ''Unexpected token''
   \<and> handler \<lparr>inspectorPath = ''cli.js'', JSON_parse = (\<lambda>s. Inl ''Unexpected token''),
               spawn = (\<lambda>_. Spawned [StdoutData ''not-json'', CloseEvent (Some 0)])\<rparr>
        (CallToolParams \<lparr>p_target = ''node server.js'', p_transport = None, timeout_ms = 60000\<rparr>
           ''ping'' [])
       = Some \<lparr>content = [TextContent (''Error [PARSE_FAILED]: Failed to parse JSON response''
                                        @ [CHR 0x0A] @ ''Details: Unexpected token'')],
               isError = Some True\<rparr>"
proof -
  let ?parse = "\<lambda>s :: string. Inl ''Unexpected token'' :: string + json"
  let ?h0 = "\<lparr>inspectorPath = ''cli.js'', JSON_parse = ?parse,
              spawn = (\<lambda>_. ExecutorThrows ''boom'')\<rparr>"
  let ?h1 = "\<lparr>inspectorPath = ''cli.js'', JSON_parse = ?parse,
              spawn = (\<lambda>_. Spawned [StdoutData ''not-json'', CloseEvent (Some 0)])\<rparr>"
  let ?p = "CallToolParams \<lparr>p_target = ''node server.js'', p_transport = None, timeout_ms = 60000\<rparr>
              ''ping'' []"
  let ?e = "\<lparr>kind = TIMEOUT, message = [], details = None\<rparr>"
  have a: "\<forall>call. spawn ?h0 call = ExecutorThrows ''boom''"
    by simp
  have c: "\<forall>call. spawn ?h1 call = Spawned [StdoutData ''not-json'', CloseEvent (Some 0)]"
    by simp
  have d: "JSON_parse ?h1 (or_else (js_trim ''not-json'') ''{}'') = Inl ''Unexpected token''"
    by simp
  have r0: "handler ?h0 ?p
      = Some \<lparr>content = [TextContent (formatError
                 \<lparr>kind = SPAWN_FAILED, message = ''Unknown error during command execution'',
                  details = Some ''boom''\<rparr>)],
              isError = Some True\<rparr>"
    using handler_response [of ?h0 ?p ?e "''boom''" "[]" "[]"] a by blast
  have r1: "handler ?h1 ?p
      = Some \<lparr>content = [TextContent (formatError
                 \<lparr>kind = PARSE_FAILED, message = ''Failed to parse JSON response'',
                  details = Some ''Unexpected token''\<rparr>)],
              isError = Some True\<rparr>"
    using handler_response [of ?h1 ?p ?e "[]" "''not-json''" "''Unexpected token''"] c d by blast
  have f0: "formatError \<lparr>kind = SPAWN_FAILED, message = ''Unknown error during command execution'',
                         details = Some ''boom''\<rparr>
      = ''Error [SPAWN_FAILED]: Unknown error during command execution'' @ [CHR 0x0A]
        @ ''Details: boom''"
    by (simp add: formatError_def truthy_string_def newline_def)
  have f1: "formatError \<lparr>kind = PARSE_FAILED, message = ''Failed to parse JSON response'',
                         details = Some ''Unexpected token''\<rparr>
      = ''Error [PARSE_FAILED]: Failed to parse JSON response'' @ [CHR 0x0A]
        @ ''Details: Unexpected token''"
    by (simp add: formatError_def truthy_string_def newline_def)
  show ?thesis
    using a c d r0 [unfolded f0] r1 [unfolded f1] by blast
qed

text \<open>A successful run, with the reply of the inspector pretty-printed.\<close>

lemma handler_success_example:
  "handler
     \<lparr>inspectorPath = ''cli.js'',
      JSON_parse = (\<lambda>s. if s = ''{'' @ [CHR 0x22] @ ''tools'' @ [CHR 0x22] @ '':[]}''
                        then Inr (JObj [(''tools'', JArr [])]) else Inl ''Unexpected token''),
      spawn = (\<lambda>_. Spawned [StdoutData (''{'' @ [CHR 0x22] @ ''tools'' @ [CHR 0x22] @ '':[]}''),
                            StdoutData [CHR 0x0A], CloseEvent (Some 0)])\<rparr>
     (ListToolsParams \<lparr>p_target = ''node server.js'', p_transport = None, timeout_ms = 1000\<rparr>)
   = Some \<lparr>content = [TextContent (''{'' @ [CHR 0x0A] @ ''  '' @ [CHR 0x22] @ ''tools''
                                     @ [CHR 0x22] @ '': []'' @ [CHR 0x0A] @ ''}'')],
            isError = None\<rparr>"
  by (simp add: listTools_def runInspectorCli_def execCommand_def andThen_def Let_def
      run_events_def resolve_def clearTimeout_def settle_def exec_init_def decodeOutput_def
      parseJson_def or_else_def js_trim_def is_js_whitespace_def JSON_stringify_2_def
      QuoteJSONString_def json_escape_char_def newline_def)

section \<open>The timeout\<close>

lemma timeout_ms_schema_Some:
  "timeout_ms_schema v = Some n \<longleftrightarrow>
     (v = None \<and> n = 60000) \<or> (v = Some (JNum n) \<and> 1000 \<le> n \<and> n \<le> 300000)"
  by (cases v rule: timeout_ms_schema.cases) auto

lemma timeout_ms_schema_None:
  "timeout_ms_schema v = None \<longleftrightarrow>
     (\<exists>j. v = Some j \<and> (\<forall>n. j = JNum n \<longrightarrow> n < 1000 \<or> 300000 < n))"
  by (cases v rule: timeout_ms_schema.cases) auto

lemma TargetServerSchema_timeout_issue:
  "timeout_ms_schema (map_of input ''timeout_ms'') = None \<Longrightarrow>
   TargetServerSchema input = None \<and> ''timeout_ms'' \<in> set (TargetServerSchema_issues input)"
  by (simp add: TargetServerSchema_def TargetServerSchema_issues_def issue_def
      split: option.splits)

lemma TargetServerSchema_timeout:
  "TargetServerSchema input = Some params \<Longrightarrow>
   timeout_ms_schema (map_of input ''timeout_ms'') = Some (timeout_ms params)"
  by (auto simp: TargetServerSchema_def split: option.splits)

lemma TargetServerSchema_default:
  "map_of input ''timeout_ms'' = None \<Longrightarrow>
   TargetServerSchema ((''timeout_ms'', JNum 60000) # input) = TargetServerSchema input
   \<and> TargetServerSchema_issues ((''timeout_ms'', JNum 60000) # input)
       = TargetServerSchema_issues input"
  by (simp add: TargetServerSchema_def TargetServerSchema_issues_def)

lemma registered_schema_cases:
  "map_of registered_tools name = Some inputSchema \<Longrightarrow>
   inputSchema = list_tools_schema \<or> inputSchema = call_tool_schema
   \<or> inputSchema = list_resources_schema \<or> inputSchema = read_resource_schema
   \<or> inputSchema = list_prompts_schema \<or> inputSchema = get_prompt_schema"
  by (auto simp: registered_tools_def split: if_splits)

lemma schema_timeout_invalid:
  assumes "map_of registered_tools name = Some inputSchema"
    and "timeout_ms_schema (map_of input ''timeout_ms'') = None"
  shows "\<exists>issues. inputSchema input = Inl issues \<and> ''timeout_ms'' \<in> set issues"
  using registered_schema_cases [OF assms(1)] TargetServerSchema_timeout_issue [OF assms(2)]
  by (auto simp: list_tools_schema_def call_tool_schema_def list_resources_schema_def
      read_resource_schema_def list_prompts_schema_def get_prompt_schema_def)

lemma schema_timeout_valid:
  assumes "map_of registered_tools name = Some inputSchema"
    and "inputSchema input = Inr params"
  shows "timeout_ms_schema (map_of input ''timeout_ms'') = Some (timeout_ms (common_params params))"
  using registered_schema_cases [OF assms(1)] assms(2) TargetServerSchema_timeout [of input]
  by (auto simp: list_tools_schema_def call_tool_schema_def list_resources_schema_def
      read_resource_schema_def list_prompts_schema_def get_prompt_schema_def
      split: option.splits)

lemma schema_timeout_default:
  assumes "map_of registered_tools name = Some inputSchema"
    and "map_of input ''timeout_ms'' = None"
  shows "inputSchema ((''timeout_ms'', JNum 60000) # input) = inputSchema input"
  using registered_schema_cases [OF assms(1)] TargetServerSchema_default [OF assms(2)]
  by (auto simp: list_tools_schema_def call_tool_schema_def list_resources_schema_def
      read_resource_schema_def list_prompts_schema_def get_prompt_schema_def
      split: option.splits)


lemma runInspectorCli_spawn_timer:
  assumes "\<forall>call. sp_timer call = t \<longrightarrow> spawn h' call = spawn h call"
    and "inspectorPath h' = inspectorPath h" and "JSON_parse h' = JSON_parse h"
  shows "runInspectorCli h' req tgt (Some t) = runInspectorCli h req tgt (Some t)"
proof -
  let ?opts = "Some \<lparr>cwd = None, envOverrides = None, timeoutMs = Some t, shell = Some False\<rparr>"
  let ?call = "spawn_call_of ''node'' (buildCliArgs (inspectorPath h) req tgt) ?opts"
  have "sp_timer ?call = t"
    by (simp add: spawn_call_of_def effective_timeout_def)
  with assms(1) have "spawn h' ?call = spawn h ?call"
    by blast
  then show ?thesis
    by (simp add: runInspectorCli_def execCommand_def Let_def assms(2,3))
qed

lemma handler_spawn_timer:
  "handler h p
     = handler (h\<lparr>spawn := (\<lambda>call. if sp_timer call = timeout_ms (common_params p)
                                    then spawn h call else ExecutorThrows [])\<rparr>) p"
  unfolding handler_eq
  by (subst runInspectorCli_spawn_timer
        [of "timeout_ms (common_params p)"
            "h\<lparr>spawn := (\<lambda>call. if sp_timer call = timeout_ms (common_params p)
                                  then spawn h call else ExecutorThrows [])\<rparr>" h])
     simp_all

lemma execCommand_default_timeout:
  "execCommand command args None w
     = execCommand command args
         (Some \<lparr>cwd = None, envOverrides = None, timeoutMs = Some 30000, shell = None\<rparr>) w"
  "execCommand command args (Some (opts\<lparr>timeoutMs := None\<rparr>)) w
     = execCommand command args (Some (opts\<lparr>timeoutMs := Some 30000\<rparr>)) w"
  by (simp_all add: execCommand_def spawn_call_of_def effective_timeout_def)

lemma TargetServerSchema_issues_nonempty:
  "TargetServerSchema input = None \<Longrightarrow> TargetServerSchema_issues input \<noteq> []"
  by (auto simp: TargetServerSchema_def TargetServerSchema_issues_def issue_def
      split: option.splits)

lemma TargetServerSchema_timeout_no_issue:
  "timeout_ms_schema (map_of input ''timeout_ms'') = Some n \<Longrightarrow>
   ''timeout_ms'' \<notin> set (TargetServerSchema_issues input)"
  by (simp add: TargetServerSchema_issues_def issue_def split: option.splits)

lemma schema_issues:
  assumes "map_of registered_tools name = Some inputSchema"
    and "inputSchema input = Inl issues"
  shows "issues \<noteq> []"
    and "timeout_ms_schema (map_of input ''timeout_ms'') = Some n \<Longrightarrow> ''timeout_ms'' \<notin> set issues"
proof -
  have ne: "TargetServerSchema input = None \<Longrightarrow> TargetServerSchema_issues input \<noteq> []"
    by (rule TargetServerSchema_issues_nonempty)
  show "issues \<noteq> []"
    using registered_schema_cases [OF assms(1)] assms(2) ne
    by (auto simp: list_tools_schema_def call_tool_schema_def list_resources_schema_def
        read_resource_schema_def list_prompts_schema_def get_prompt_schema_def issue_def
        split: option.splits)
  assume "timeout_ms_schema (map_of input ''timeout_ms'') = Some n"
  then have "''timeout_ms'' \<notin> set (TargetServerSchema_issues input)"
    by (rule TargetServerSchema_timeout_no_issue)
  then show "''timeout_ms'' \<notin> set issues"
    using registered_schema_cases [OF assms(1)] assms(2)
    by (auto simp: list_tools_schema_def call_tool_schema_def list_resources_schema_def
        read_resource_schema_def list_prompts_schema_def get_prompt_schema_def issue_def
        split: option.splits)
qed

lemma schema_accepts_in_range:
  assumes "map_of registered_tools name = Some inputSchema"
    and "1000 \<le> n" and "n \<le> 300000"
  shows "\<exists>params. inputSchema [(''target'', JStr ''node server.js''), (''tool_name'', JStr ''ping''),
                               (''uri'', JStr ''file:///a''), (''prompt_name'', JStr ''greet''),
                               (''timeout_ms'', JNum n)] = Inr params
           \<and> timeout_ms (common_params params) = n
           \<and> p_target (common_params params) = ''node server.js''"
  using registered_schema_cases [OF assms(1)] assms(2,3)
  by (auto simp: list_tools_schema_def call_tool_schema_def list_resources_schema_def
      read_resource_schema_def list_prompts_schema_def get_prompt_schema_def
      TargetServerSchema_def)

text \<open>
  Claim C7: each of the six registered tools takes \<open>timeout_ms\<close> through the same schema.
  An absent value is the same as 60000. A value that is present and is not an integer
  from 1000 to 300000 (a number out of range, a fraction, or not a number) fails
  validation, with \<open>timeout_ms\<close> among the issues, whatever the host is: the handler is
  not run and no process is spawned. Every integer from 1000 to 300000 passes: it is never
  among the issues of a call, a call that is accepted carries exactly the value given,
  and with the other fields valid the call is accepted. A call that passes validation
  runs the handler with a timeout within the bounds, which is the value given or the
  default, and the only process the handler spawns has its timer set to that timeout.
  \<open>execCommand\<close> itself, given no options or no \<open>timeoutMs\<close>, behaves as with a timeout of
  30000.
\<close>

theorem timeout_ms_validated:
  "map_of registered_tools name = Some inputSchema \<Longrightarrow>
   (map_of input ''timeout_ms'' = None \<longrightarrow>
      call_registered_tool h name input
        = call_registered_tool h name ((''timeout_ms'', JNum 60000) # input))
   \<and> (map_of input ''timeout_ms'' = Some v \<and> (\<forall>n. v = JNum n \<longrightarrow> n < 1000 \<or> 300000 < n) \<longrightarrow>
        (\<exists>issues. ''timeout_ms'' \<in> set issues
           \<and> (\<forall>h'. call_registered_tool h' name input = InvalidParams issues)))
   \<and> (map_of input ''timeout_ms'' = Some (JNum m) \<and> 1000 \<le> m \<and> m \<le> 300000 \<longrightarrow>
        (\<forall>issues. inputSchema input = Inl issues \<longrightarrow> issues \<noteq> [] \<and> ''timeout_ms'' \<notin> set issues)
        \<and> (\<forall>accepted. inputSchema input = Inr accepted \<longrightarrow>
              timeout_ms (common_params accepted) = m))
   \<and> (1000 \<le> m \<and> m \<le> 300000 \<longrightarrow>
        (\<exists>accepted.
           inputSchema [(''target'', JStr ''node server.js''), (''tool_name'', JStr ''ping''),
                        (''uri'', JStr ''file:///a''), (''prompt_name'', JStr ''greet''),
                        (''timeout_ms'', JNum m)] = Inr accepted
           \<and> timeout_ms (common_params accepted) = m))
   \<and> (inputSchema input = Inr params \<longrightarrow>
        1000 \<le> timeout_ms (common_params params) \<and> timeout_ms (common_params params) \<le> 300000
        \<and> (map_of input ''timeout_ms'' = None \<and> timeout_ms (common_params params) = 60000
            \<or> map_of input ''timeout_ms'' = Some (JNum (timeout_ms (common_params params))))
        \<and> call_registered_tool h name input = Handled (handler h params)
        \<and> handler h params
            = handler (h\<lparr>spawn := (\<lambda>call. if sp_timer call = timeout_ms (common_params params)
                                           then spawn h call else ExecutorThrows [])\<rparr>) params)
   \<and> execCommand command args None w
       = execCommand command args
           (Some \<lparr>cwd = None, envOverrides = None, timeoutMs = Some 30000, shell = None\<rparr>) w
   \<and> execCommand command args (Some (opts\<lparr>timeoutMs := None\<rparr>)) w
       = execCommand command args (Some (opts\<lparr>timeoutMs := Some 30000\<rparr>)) w"
proof (intro conjI impI allI)
  assume reg: "map_of registered_tools name = Some inputSchema"
  {
    assume "map_of input ''timeout_ms'' = None"
    then show "call_registered_tool h name input
        = call_registered_tool h name ((''timeout_ms'', JNum 60000) # input)"
      using schema_timeout_default [OF reg] by (simp add: call_registered_tool_def reg)
  }
  {
    assume "map_of input ''timeout_ms'' = Some v \<and> (\<forall>n. v = JNum n \<longrightarrow> n < 1000 \<or> 300000 < n)"
    then have "timeout_ms_schema (map_of input ''timeout_ms'') = None"
      by (simp add: timeout_ms_schema_None)
    from schema_timeout_invalid [OF reg this]
    obtain issues where "inputSchema input = Inl issues" "''timeout_ms'' \<in> set issues"
      by blast
    then show "\<exists>issues. ''timeout_ms'' \<in> set issues
           \<and> (\<forall>h'. call_registered_tool h' name input = InvalidParams issues)"
      by (auto simp: call_registered_tool_def reg)
  }
  {
    assume inr: "map_of input ''timeout_ms'' = Some (JNum m) \<and> 1000 \<le> m \<and> m \<le> 300000"
    then have tm: "timeout_ms_schema (map_of input ''timeout_ms'') = Some m"
      by simp
    {
      fix issues
      assume bad: "inputSchema input = Inl issues"
      show "issues \<noteq> []"
        by (rule schema_issues(1) [OF reg bad])
      show "''timeout_ms'' \<notin> set issues"
        by (rule schema_issues(2) [OF reg bad tm])
    }
    {
      fix accepted
      assume "inputSchema input = Inr accepted"
      from schema_timeout_valid [OF reg this] tm
      show "timeout_ms (common_params accepted) = m"
        by simp
    }
  }
  {
    assume "1000 \<le> m \<and> m \<le> 300000"
    then show "\<exists>accepted.
           inputSchema [(''target'', JStr ''node server.js''), (''tool_name'', JStr ''ping''),
                        (''uri'', JStr ''file:///a''), (''prompt_name'', JStr ''greet''),
                        (''timeout_ms'', JNum m)] = Inr accepted
           \<and> timeout_ms (common_params accepted) = m"
      using schema_accepts_in_range [OF reg, of m] by blast
  }
  {
    assume ok: "inputSchema input = Inr params"
    note v = schema_timeout_valid [OF reg ok]
    from v show "1000 \<le> timeout_ms (common_params params)"
      and "timeout_ms (common_params params) \<le> 300000"
      by (auto simp: timeout_ms_schema_Some)
    from v show "map_of input ''timeout_ms'' = None \<and> timeout_ms (common_params params) = 60000
            \<or> map_of input ''timeout_ms'' = Some (JNum (timeout_ms (common_params params)))"
      by (auto simp: timeout_ms_schema_Some)
    show "call_registered_tool h name input = Handled (handler h params)"
      by (simp add: call_registered_tool_def reg ok)
    show "handler h params
            = handler (h\<lparr>spawn := (\<lambda>call. if sp_timer call = timeout_ms (common_params params)
                                           then spawn h call else ExecutorThrows [])\<rparr>) params"
      by (rule handler_spawn_timer)
  }
  show "execCommand command args None w
       = execCommand command args
           (Some \<lparr>cwd = None, envOverrides = None, timeoutMs = Some 30000, shell = None\<rparr>) w"
    by (rule execCommand_default_timeout)
  show "execCommand command args (Some (opts\<lparr>timeoutMs := None\<rparr>)) w
       = execCommand command args (Some (opts\<lparr>timeoutMs := Some 30000\<rparr>)) w"
    by (rule execCommand_default_timeout)
qed

theorem timeout_ms_validated_witness:
  "map_of registered_tools ''mcpdev_inspector_call_tool'' = Some call_tool_schema
   \<and> map_of [(''target'', JStr ''node server.js''), (''tool_name'', JStr ''ping'')] ''timeout_ms''
       = None
   \<and> call_registered_tool
        \<lparr>inspectorPath = ''cli.js'', JSON_parse = (\<lambda>s. Inl ''Unexpected token''),
         spawn = (\<lambda>_. ExecutorThrows ''boom'')\<rparr>
        ''mcpdev_inspector_call_tool''
        [(''target'', JStr ''node server.js''), (''tool_name'', JStr ''ping'')]
       = call_registered_tool
           \<lparr>inspectorPath = ''cli.js'', JSON_parse = (\<lambda>s. Inl ''Unexpected token''),
            spawn = (\<lambda>_. ExecutorThrows ''boom'')\<rparr>
           ''mcpdev_inspector_call_tool''
           [(''timeout_ms'', JNum 60000), (''target'', JStr ''node server.js''),
            (''tool_name'', JStr ''ping'')]
   \<and> map_of [(''target'', JStr ''node server.js''), (''tool_name'', JStr ''ping''),
              (''timeout_ms'', JNum 999)] ''timeout_ms'' = Some (JNum 999)
   \<and> (\<forall>h'. call_registered_tool h' ''mcpdev_inspector_call_tool''
              [(''target'', JStr ''node server.js''), (''tool_name'', JStr ''ping''),
               (''timeout_ms'', JNum 999)]
            = InvalidParams [''timeout_ms''])
   \<and> map_of [(''target'', JStr ''node server.js''), (''tool_name'', JStr ''ping''),
              (''timeout_ms'', JNum 5000)] ''timeout_ms'' = Some (JNum 5000)
   \<and> call_tool_schema [(''target'', JStr ''node server.js''), (''tool_name'', JStr ''ping''),
                        (''timeout_ms'', JNum 5000)]
       = Inr (CallToolParams
                \<lparr>p_target = ''node server.js'', p_transport = None, timeout_ms = 5000\<rparr> ''ping'' [])
   \<and> timeout_ms (common_params (CallToolParams
          \<lparr>p_target = ''node server.js'', p_transport = None, timeout_ms = 5000\<rparr> ''ping'' []))
       = 5000
   \<and> (\<exists>accepted.
         call_tool_schema [(''target'', JStr ''node server.js''), (''tool_name'', JStr ''ping''),
                           (''uri'', JStr ''file:///a''), (''prompt_name'', JStr ''greet''),
                           (''timeout_ms'', JNum 1000)] = Inr accepted
         \<and> timeout_ms (common_params accepted) = 1000)
   \<and> (\<exists>accepted.
         call_tool_schema [(''target'', JStr ''node server.js''), (''tool_name'', JStr ''ping''),
                           (''uri'', JStr ''file:///a''), (''prompt_name'', JStr ''greet''),
                           (''timeout_ms'', JNum 300000)] = Inr accepted
         \<and> timeout_ms (common_params accepted) = 300000)
   \<and> call_registered_tool
        \<lparr>inspectorPath = ''cli.js'', JSON_parse = (\<lambda>s. Inl ''Unexpected token''),
         spawn = (\<lambda>_. ExecutorThrows ''boom'')\<rparr>
        ''mcpdev_inspector_call_tool''
        [(''target'', JStr ''node server.js''), (''tool_name'', JStr ''ping''),
         (''timeout_ms'', JNum 5000)]
       = Handled (handler
           \<lparr>inspectorPath = ''cli.js'', JSON_parse = (\<lambda>s. Inl ''Unexpected token''),
            spawn = (\<lambda>_. ExecutorThrows ''boom'')\<rparr>
           (CallToolParams
              \<lparr>p_target = ''node server.js'', p_transport = None, timeout_ms = 5000\<rparr> ''ping'' []))"
proof -
  let ?h = "\<lparr>inspectorPath = ''cli.js'',
             JSON_parse = (\<lambda>s :: string. Inl ''Unexpected token'' :: string + json),
             spawn = (\<lambda>_. ExecutorThrows ''boom'')\<rparr>"
  let ?name = "''mcpdev_inspector_call_tool''"
  let ?in1 = "[(''target'', JStr ''node server.js''), (''tool_name'', JStr ''ping'')]"
  let ?in2 = "[(''target'', JStr ''node server.js''), (''tool_name'', JStr ''ping''),
               (''timeout_ms'', JNum 999)]"
  let ?in3 = "[(''target'', JStr ''node server.js''), (''tool_name'', JStr ''ping''),
               (''timeout_ms'', JNum 5000)]"
  let ?p3 = "CallToolParams
               \<lparr>p_target = ''node server.js'', p_transport = None, timeout_ms = 5000\<rparr> ''ping'' []"
  have reg: "map_of registered_tools ?name = Some call_tool_schema"
    by (simp add: registered_tools_def)
  have absent: "map_of ?in1 ''timeout_ms'' = None"
    by simp
  have bad: "map_of ?in2 ''timeout_ms'' = Some (JNum 999)
      \<and> (\<forall>n. JNum 999 = JNum n \<longrightarrow> n < 1000 \<or> 300000 < n)"
    by simp
  have good: "map_of ?in3 ''timeout_ms'' = Some (JNum 5000) \<and> (1000::int) \<le> 5000
      \<and> (5000::int) \<le> 300000"
    by simp
  have lo: "(1000::int) \<le> 1000 \<and> (1000::int) \<le> 300000"
    by simp
  have hi: "(1000::int) \<le> 300000 \<and> (300000::int) \<le> 300000"
    by simp
  have ok: "call_tool_schema ?in3 = Inr ?p3"
    by (simp add: call_tool_schema_def TargetServerSchema_def)
  note t1 = timeout_ms_validated [OF reg, where input = ?in1 and h = ?h and m = 1000]
  note t2 = timeout_ms_validated [OF reg, where input = ?in2 and h = ?h and v = "JNum 999"
      and m = 300000]
  note t3 = timeout_ms_validated [OF reg, where input = ?in3 and h = ?h and m = 5000
      and params = ?p3]
  have r1: "call_registered_tool ?h ?name ?in1
      = call_registered_tool ?h ?name ((''timeout_ms'', JNum 60000) # ?in1)"
    using t1 absent by blast
  obtain issues where iss: "\<forall>h'. call_registered_tool h' ?name ?in2 = InvalidParams issues"
    using t2 bad by blast
  have "call_registered_tool ?h ?name ?in2 = InvalidParams [''timeout_ms'']"
    by (simp add: call_registered_tool_def reg call_tool_schema_def TargetServerSchema_def
        TargetServerSchema_issues_def issue_def)
  with iss have "issues = [''timeout_ms'']"
    by (metis tool_call_outcome.inject(1))
  with iss have r2: "\<forall>h'. call_registered_tool h' ?name ?in2 = InvalidParams [''timeout_ms'']"
    by simp
  have r3: "timeout_ms (common_params ?p3) = 5000"
    using t3 good ok by blast
  have r4: "\<exists>accepted.
         call_tool_schema [(''target'', JStr ''node server.js''), (''tool_name'', JStr ''ping''),
                           (''uri'', JStr ''file:///a''), (''prompt_name'', JStr ''greet''),
                           (''timeout_ms'', JNum 1000)] = Inr accepted
         \<and> timeout_ms (common_params accepted) = 1000"
    using t1 lo by blast
  have r5: "\<exists>accepted.
         call_tool_schema [(''target'', JStr ''node server.js''), (''tool_name'', JStr ''ping''),
                           (''uri'', JStr ''file:///a''), (''prompt_name'', JStr ''greet''),
                           (''timeout_ms'', JNum 300000)] = Inr accepted
         \<and> timeout_ms (common_params accepted) = 300000"
    using t2 hi by blast
  have r6: "call_registered_tool ?h ?name ?in3 = Handled (handler ?h ?p3)"
    using t3 ok by blast
  have g: "map_of ?in3 ''timeout_ms'' = Some (JNum 5000)"
    by simp
  have b: "map_of ?in2 ''timeout_ms'' = Some (JNum 999)"
    by simp
  show ?thesis
    using reg absent r1 b r2 g ok r3 r4 r5 r6 by blast
qed

text \<open>
  The record schemas check every entry and leave an entry with the key \<open>__proto__\<close> out
  of what the handler receives.
\<close>

lemma record_schema_examples:
  "tool_args_schema (Some (JObj [(''__proto__'', JStr ''p''), (''a'', JNum 1)]))
     = Some [(''a'', JNum 1)]"
  "prompt_args_schema (Some (JObj [(''__proto__'', JStr ''p''), (''a'', JStr ''x'')]))
     = Some [(''a'', ''x'')]"
  "prompt_args_schema (Some (JObj [(''__proto__'', JNum 1), (''a'', JStr ''x'')])) = None"
  by (simp_all add: record_result_def)

end
